theory Spec2Isabelle
  imports
    Main
    "HOL-Library.Char_ord"
    "HOL-Library.List_Lexorder"
    "HOL-Library.Option_ord"
    "HOL-Library.Product_Lexorder"
begin

section \<open>Strings as the program and SQLite handle them\<close>

text \<open>
  Strings are byte strings restricted to ASCII. Whitespace is what Python's
  \<^verbatim>\<open>str.strip()\<close> removes in that range: the codes 9 to 13, 28 to 31 and 32.
\<close>

definition is_space :: "char \<Rightarrow> bool" where
  "is_space c =
     (let n = (of_char c :: nat) in (9 \<le> n \<and> n \<le> 13) \<or> (28 \<le> n \<and> n \<le> 32))"

definition strip_by :: "(char \<Rightarrow> bool) \<Rightarrow> string \<Rightarrow> string" where
  "strip_by P s = rev (dropWhile P (rev (dropWhile P s)))"

definition strip :: "string \<Rightarrow> string" where
  "strip s = strip_by is_space s"

definition is_digit :: "char \<Rightarrow> bool" where
  "is_digit c = (let n = (of_char c :: nat) in 48 \<le> n \<and> n \<le> 57)"

definition digit_val :: "char \<Rightarrow> nat" where
  "digit_val c = (of_char c :: nat) - 48"

definition digit_chr :: "nat \<Rightarrow> char" where
  "digit_chr d = char_of (48 + d)"

text \<open>
  SQLite folds the 26 ASCII letters in \<^verbatim>\<open>LIKE\<close> and in \<^verbatim>\<open>LOWER()\<close>;
  every other byte is left alone.
\<close>

definition ascii_lower :: "char \<Rightarrow> char" where
  "ascii_lower c =
     (let n = (of_char c :: nat) in if 65 \<le> n \<and> n \<le> 90 then char_of (n + 32) else c)"

definition sql_lower :: "string \<Rightarrow> string" where
  "sql_lower s = map ascii_lower s"

text \<open>
  \<^verbatim>\<open>text LIKE pattern\<close> with SQLite's defaults (no \<^verbatim>\<open>ESCAPE\<close>, no
  \<^verbatim>\<open>PRAGMA case_sensitive_like\<close>; the program sets neither): \<^verbatim>\<open>%\<close> stands for
  any run of characters, \<^verbatim>\<open>_\<close> for any single one, and every other pattern
  character matches itself up to ASCII case. The pattern is the first argument.
\<close>

fun sql_like :: "string \<Rightarrow> string \<Rightarrow> bool" where
  "sql_like [] s = (s = [])"
| "sql_like (p # ps) [] = (p = CHR ''%'' \<and> sql_like ps [])"
| "sql_like (p # ps) (c # cs) =
     (if p = CHR ''%'' then sql_like ps (c # cs) \<or> sql_like (p # ps) cs
      else (p = CHR ''_'' \<or> ascii_lower p = ascii_lower c) \<and> sql_like ps cs)"

text \<open>Python's \<^verbatim>\<open>s.split("-")\<close>: never empty, one more piece than there are dashes.\<close>

fun split_dash :: "string \<Rightarrow> string list" where
  "split_dash [] = [[]]"
| "split_dash (c # cs) =
     (if c = CHR ''-'' then [] # split_dash cs
      else (case split_dash cs of
              [] \<Rightarrow> [[c]]
            | w # ws \<Rightarrow> (c # w) # ws))"

text \<open>
  Python's \<^verbatim>\<open>int(s)\<close> on an ASCII string: surrounding whitespace is dropped (for
  \<^verbatim>\<open>int\<close> that is the codes 9 to 13 and 32 only), one sign is allowed, then
  decimal digits, single underscores allowed between digits. \<open>None\<close> is the
  \<^verbatim>\<open>ValueError\<close>. (The interpreter's limit on the number of digits, 4300 by
  default, is not modelled.)
\<close>

definition is_int_space :: "char \<Rightarrow> bool" where
  "is_int_space c = (let n = (of_char c :: nat) in (9 \<le> n \<and> n \<le> 13) \<or> n = 32)"

fun py_digits_from :: "nat \<Rightarrow> string \<Rightarrow> nat option" where
  "py_digits_from acc [] = Some acc"
| "py_digits_from acc [c] =
     (if is_digit c then Some (10 * acc + digit_val c) else None)"
| "py_digits_from acc (c # d # ds) =
     (if is_digit c then py_digits_from (10 * acc + digit_val c) (d # ds)
      else if c = CHR ''_'' \<and> is_digit d then py_digits_from (10 * acc + digit_val d) ds
      else None)"

definition py_digits :: "string \<Rightarrow> nat option" where
  "py_digits s =
     (case s of
        [] \<Rightarrow> None
      | c # cs \<Rightarrow> if is_digit c then py_digits_from (digit_val c) cs else None)"

definition py_int :: "string \<Rightarrow> int option" where
  "py_int s =
     (case strip_by is_int_space s of
        [] \<Rightarrow> None
      | c # cs \<Rightarrow>
          if c = CHR ''-'' then map_option (\<lambda>n. - int n) (py_digits cs)
          else if c = CHR ''+'' then map_option int (py_digits cs)
          else map_option int (py_digits (c # cs)))"

text \<open>Python's \<^verbatim>\<open>format(n, "03d")\<close>: zero padding up to width 3, the sign included.\<close>

fun dec_digits :: "nat \<Rightarrow> string" where
  "dec_digits n =
     (if n < 10 then [digit_chr n] else dec_digits (n div 10) @ [digit_chr (n mod 10)])"

definition format_03d :: "int \<Rightarrow> string" where
  "format_03d n =
     (if n < 0
      then CHR ''-'' # replicate (2 - length (dec_digits (nat (- n)))) CHR ''0''
             @ dec_digits (nat (- n))
      else replicate (3 - length (dec_digits (nat n))) CHR ''0'' @ dec_digits (nat n))"

section \<open>The memoranda database\<close>

text \<open>
  A row of \<^verbatim>\<open>memos\<close>. Every column but the integer primary key is nullable
  \<^verbatim>\<open>TEXT\<close>; \<open>None\<close> is \<^verbatim>\<open>NULL\<close>. The column \<^verbatim>\<open>notes\<close> is the field
  \<open>notes_col\<close>, the column \<^verbatim>\<open>id\<close> the field \<open>memo_id\<close>.
\<close>

record memo =
  memo_id :: int
  control_no :: "string option"
  date_log :: "string option"
  date_doc :: "string option"
  memo_from :: "string option"
  thru :: "string option"
  memo_for :: "string option"
  subject :: "string option"
  category :: "string option"
  status :: "string option"
  notes_col :: "string option"
  created_at :: "string option"
  updated_at :: "string option"

subsection \<open>Control numbers\<close>

text \<open>
  \<^verbatim>\<open>parse_control_sequence\<close>: the last dash-separated piece, stripped, read as
  an integer; any exception gives \<open>None\<close>.
\<close>

definition parse_control_sequence :: "string \<Rightarrow> int option" where
  "parse_control_sequence cn = py_int (strip (last (split_dash cn)))"

text \<open>
  The rows \<^verbatim>\<open>SELECT control_no FROM memos WHERE control_no LIKE ? ORDER BY control_no DESC\<close>
  returns for the pattern \<^verbatim>\<open>"{prefix} {yy}-%"\<close>. A \<^verbatim>\<open>NULL\<close> control number
  never satisfies \<^verbatim>\<open>LIKE\<close>.
\<close>

definition like_pattern :: "string \<Rightarrow> string \<Rightarrow> string" where
  "like_pattern yy prefix = prefix @ '' '' @ yy @ ''-%''"

definition matching_control_nos :: "string \<Rightarrow> string \<Rightarrow> memo list \<Rightarrow> string list" where
  "matching_control_nos yy prefix ms =
     rev (sort (filter (sql_like (like_pattern yy prefix))
                  (List.map_filter control_no ms)))"

text \<open>
  The loop of \<^verbatim>\<open>next_control_no\<close>: \<^verbatim>\<open>if seq and seq > last_seq: last_seq = seq\<close>.
  A sequence that is \<open>None\<close> or 0 is falsy and skipped.
\<close>

fun scan_last_seq :: "int \<Rightarrow> string list \<Rightarrow> int" where
  "scan_last_seq last_seq [] = last_seq"
| "scan_last_seq last_seq (cn # rows) =
     (case parse_control_sequence cn of
        None \<Rightarrow> scan_last_seq last_seq rows
      | Some seq \<Rightarrow>
          if seq \<noteq> 0 \<and> seq > last_seq then scan_last_seq seq rows
          else scan_last_seq last_seq rows)"

text \<open>
  \<^verbatim>\<open>next_control_no(prefix)\<close>. The two-digit year \<open>yy\<close> is what
  \<^verbatim>\<open>datetime.now().strftime("%y")\<close> gave; the table is only read.
\<close>

definition next_control_no :: "string \<Rightarrow> string \<Rightarrow> memo list \<Rightarrow> string" where
  "next_control_no yy prefix ms =
     (let rows = matching_control_nos yy prefix ms;
          last_seq = scan_last_seq 0 rows
      in prefix @ '' '' @ yy @ ''-'' @ format_03d (last_seq + 1))"


text \<open>A memo with nothing but a control number, for the worked examples.\<close>

definition bare_memo :: "int \<Rightarrow> string option \<Rightarrow> memo" where
  "bare_memo i cn =
     \<lparr>memo_id = i, control_no = cn, date_log = None, date_doc = None, memo_from = None,
      thru = None, memo_for = None, subject = None, category = None, status = None,
      notes_col = None, created_at = None, updated_at = None\<rparr>"


subsection \<open>The memo listings of the Dashboard and Monitor / Manage pages\<close>

text \<open>
  SQL conditions are three-valued: \<open>None\<close> is \<^verbatim>\<open>NULL\<close> (unknown). A row is
  selected when its \<^verbatim>\<open>WHERE\<close> condition is true, not when it is false or unknown.
\<close>

type_synonym sql_bool = "bool option"

definition sql_and :: "sql_bool \<Rightarrow> sql_bool \<Rightarrow> sql_bool" where
  "sql_and a b =
     (if a = Some False \<or> b = Some False then Some False
      else if a = None \<or> b = None then None else Some True)"

definition sql_or :: "sql_bool \<Rightarrow> sql_bool \<Rightarrow> sql_bool" where
  "sql_or a b =
     (if a = Some True \<or> b = Some True then Some True
      else if a = None \<or> b = None then None else Some False)"

text \<open>
  \<^verbatim>\<open>col LIKE ?\<close>, \<^verbatim>\<open>col >= ?\<close>, \<^verbatim>\<open>col <= ?\<close> and \<^verbatim>\<open>col IN (?,...)\<close> on a
  nullable text column with string parameters. Text compares bytewise (the
  \<^verbatim>\<open>BINARY\<close> collation), which is the lexicographic order on strings.
\<close>

definition col_like :: "string option \<Rightarrow> string \<Rightarrow> sql_bool" where
  "col_like v pat = map_option (sql_like pat) v"

definition col_ge :: "string option \<Rightarrow> string \<Rightarrow> sql_bool" where
  "col_ge v x = map_option (\<lambda>t. x \<le> t) v"

definition col_le :: "string option \<Rightarrow> string \<Rightarrow> sql_bool" where
  "col_le v x = map_option (\<lambda>t. t \<le> x) v"

definition col_in :: "string option \<Rightarrow> string list \<Rightarrow> sql_bool" where
  "col_in v xs = map_option (\<lambda>t. t \<in> set xs) v"

text \<open>
  \<^verbatim>\<open>" OR ".join([...])\<close>: the conditions joined from left to right. The pages call
  it on a list that is not empty.
\<close>

definition or_join :: "sql_bool list \<Rightarrow> sql_bool" where
  "or_join cs = (case cs of [] \<Rightarrow> Some False | c # rest \<Rightarrow> foldl sql_or c rest)"

text \<open>
  The signed-in user as the login handler stores it in the session:
  \<^verbatim>\<open>{"id", "username", "role", "units"}\<close>. (A role that is \<^verbatim>\<open>NULL\<close> in the
  table is not modelled; the program always writes one.)
\<close>

record session_user =
  user_id :: int
  username :: string
  role :: string
  units :: "string list"

text \<open>The filter widgets of a listing page.\<close>

record filters =
  start_date :: string
  end_date :: string
  q :: string
  cat_filter :: "string list"
  status_filter :: "string list"

text \<open>
  The condition built before the user is looked at: the date range, then the search
  box, the categories and the statuses, each only when it is not empty.
\<close>

definition filter_where :: "filters \<Rightarrow> memo \<Rightarrow> sql_bool" where
  "filter_where f m =
     (let c0 = sql_and (col_ge (date_log m) (start_date f)) (col_le (date_log m) (end_date f));
          like = CHR ''%'' # q f @ ''%'';
          c1 = (if q f \<noteq> []
                then sql_and c0
                       (sql_or (sql_or (sql_or (col_like (subject m) like)
                                               (col_like (memo_from m) like))
                                       (col_like (memo_for m) like))
                               (col_like (notes_col m) like))
                else c0);
          c2 = (if cat_filter f \<noteq> [] then sql_and c1 (col_in (category m) (cat_filter f))
                else c1);
          c3 = (if status_filter f \<noteq> [] then sql_and c2 (col_in (status m) (status_filter f))
                else c2)
      in c3)"

text \<open>
  The restriction by units, appended for a signed-in user whose role is not
  \<^verbatim>\<open>admin\<close>: one \<^verbatim>\<open>memo_for LIKE '%unit%'\<close> per unit, joined by \<^verbatim>\<open>OR\<close>, or
  \<^verbatim>\<open>1=0\<close> when the user has no unit.
\<close>

definition memo_query_where :: "filters \<Rightarrow> session_user option \<Rightarrow> memo \<Rightarrow> sql_bool" where
  "memo_query_where f current_user m =
     (case current_user of
        None \<Rightarrow> filter_where f m
      | Some u \<Rightarrow>
          if role u \<noteq> ''admin'' then
            (if units u \<noteq> []
             then sql_and (filter_where f m)
                    (or_join (map (\<lambda>un. col_like (memo_for m) (CHR ''%'' # un @ ''%'')) (units u)))
             else sql_and (filter_where f m) (Some False))
          else filter_where f m)"

text \<open>
  \<^verbatim>\<open>ORDER BY date_log DESC, control_no DESC\<close>; \<^verbatim>\<open>NULL\<close> sorts below every text.
\<close>

definition order_by_log_desc :: "memo list \<Rightarrow> memo list" where
  "order_by_log_desc rows = rev (sort_key (\<lambda>m. (date_log m, control_no m)) rows)"

definition select_memos :: "filters \<Rightarrow> session_user option \<Rightarrow> memo list \<Rightarrow> memo list" where
  "select_memos f current_user ms =
     order_by_log_desc (filter (\<lambda>m. memo_query_where f current_user m = Some True) ms)"

text \<open>The columns each page selects, in the order of its \<^verbatim>\<open>SELECT\<close>.\<close>

type_synonym dashboard_row =
  "int \<times> string option \<times> string option \<times> string option \<times> string option \<times> string option
     \<times> string option \<times> string option \<times> string option \<times> string option"

definition dashboard_cols :: "memo \<Rightarrow> dashboard_row" where
  "dashboard_cols m =
     (memo_id m, control_no m, date_log m, date_doc m, memo_from m, memo_for m, subject m,
      notes_col m, category m, status m)"

definition dashboard_query :: "filters \<Rightarrow> session_user option \<Rightarrow> memo list \<Rightarrow> dashboard_row list" where
  "dashboard_query f current_user ms = map dashboard_cols (select_memos f current_user ms)"

type_synonym manage_row =
  "int \<times> string option \<times> string option \<times> string option \<times> string option \<times> string option
     \<times> string option \<times> string option \<times> string option \<times> string option \<times> string option
     \<times> string option"

definition manage_cols :: "memo \<Rightarrow> manage_row" where
  "manage_cols m =
     (memo_id m, control_no m, date_log m, date_doc m, subject m, category m, status m,
      memo_from m, memo_for m, thru m, notes_col m, updated_at m)"

definition manage_query :: "filters \<Rightarrow> session_user option \<Rightarrow> memo list \<Rightarrow> manage_row list" where
  "manage_query f current_user ms = map manage_cols (select_memos f current_user ms)"

text \<open>
  What the unit restriction asks of a memo, for the user's list of units: some
  \<^verbatim>\<open>memo_for LIKE '%unit%'\<close> is true.
\<close>

definition unit_match :: "string list \<Rightarrow> memo \<Rightarrow> bool" where
  "unit_match us m =
     (case memo_for m of
        None \<Rightarrow> False
      | Some t \<Rightarrow> \<exists>un \<in> set us. sql_like (CHR ''%'' # un @ ''%'') t)"

text \<open>
  The reading of "contains the unit name as a raw substring" that compares characters
  exactly, as Python's \<^verbatim>\<open>unit in memo_for\<close> does.
\<close>

fun starts_with :: "string \<Rightarrow> string \<Rightarrow> bool" where
  "starts_with [] s = True"
| "starts_with (x # xs) [] = False"
| "starts_with (x # xs) (c # cs) = (x = c \<and> starts_with xs cs)"

fun raw_substring :: "string \<Rightarrow> string \<Rightarrow> bool" where
  "raw_substring u [] = (u = [])"
| "raw_substring u (c # cs) = (starts_with u (c # cs) \<or> raw_substring u cs)"

text \<open>Example data: a memo for the unit FISCAL, and viewers of the units "IS" and "is".\<close>

definition fiscal_memo :: memo where
  "fiscal_memo =
     \<lparr>memo_id = 1, control_no = Some ''MEMO 25-001'', date_log = Some ''2025-03-01'',
      date_doc = Some ''2025-03-01'', memo_from = Some ''Treasury'', thru = Some [],
      memo_for = Some ''FISCAL'', subject = Some ''Budget'', category = Some [],
      status = Some [], notes_col = Some [], created_at = Some ''2025-03-01T08:00:00'',
      updated_at = Some ''2025-03-01T08:00:00''\<rparr>"

definition year_2025 :: filters where
  "year_2025 =
     \<lparr>start_date = ''2025-01-01'', end_date = ''2025-12-31'', q = [], cat_filter = [],
      status_filter = []\<rparr>"

definition viewer_of :: "string list \<Rightarrow> session_user" where
  "viewer_of us = \<lparr>user_id = 2, username = ''vee'', role = ''viewer'', units = us\<rparr>"

definition admin_of :: "string list \<Rightarrow> session_user" where
  "admin_of us = \<lparr>user_id = 1, username = ''admin'', role = ''admin'', units = us\<rparr>"


subsection \<open>Tables, errors and the audit trail\<close>

text \<open>
  A row of \<^verbatim>\<open>users\<close>, in the user database and in its mirror in the memoranda
  database, and a row of \<^verbatim>\<open>audit_trail\<close> (its \<^verbatim>\<open>id\<close> is not read by the code
  modelled here and is left out).
\<close>

record user_row =
  u_id :: int
  u_username :: "string option"
  u_email :: "string option"
  password_hash :: "string option"
  password_salt :: "string option"
  u_role :: "string option"
  is_active :: "int option"
  u_created_at :: "string option"

record audit_row =
  ts :: string
  au_user_id :: "int option"
  action :: string
  au_memo_id :: "int option"
  details :: string

text \<open>
  The memoranda database: the tables the modelled code reads or writes. \<open>memos_seq\<close>
  is the entry of \<^verbatim>\<open>sqlite_sequence\<close> for \<^verbatim>\<open>memos\<close>, the largest id
  \<^verbatim>\<open>AUTOINCREMENT\<close> has handed out.
\<close>

record memo_db =
  memos :: "memo list"
  memos_seq :: int
  settings :: "(string \<times> string option) list"
  control_prefixes :: "(string \<times> string) list"
  legacy_users :: "user_row list"
  audit_trail :: "audit_row list"

text \<open>The exceptions of \<^verbatim>\<open>sqlite3\<close> that the modelled statements can raise.\<close>

datatype db_error = IntegrityError string | OperationalError string

text \<open>\<^verbatim>\<open>UPDATE t SET ... WHERE cond\<close> on a table held as a list of rows.\<close>

primrec sql_update :: "('r \<Rightarrow> bool) \<Rightarrow> ('r \<Rightarrow> 'r) \<Rightarrow> 'r list \<Rightarrow> 'r list" where
  "sql_update cond upd [] = []"
| "sql_update cond upd (r # rs) = (if cond r then upd r else r) # sql_update cond upd rs"

text \<open>
  \<^verbatim>\<open>clear_memo_contents(memo_id)\<close>; \<open>now\<close> is what \<^verbatim>\<open>today_ts()\<close> returned.
\<close>

definition clear_memo_contents :: "string \<Rightarrow> int \<Rightarrow> memo_db \<Rightarrow> memo_db" where
  "clear_memo_contents now mid db =
     db\<lparr>memos :=
          sql_update (\<lambda>m. memo_id m = mid)
            (\<lambda>m. m\<lparr>date_log := None, date_doc := None,
                    memo_from := Some [], thru := Some [], memo_for := Some [],
                    subject := Some [], notes_col := Some [],
                    updated_at := Some now\<rparr>)
            (memos db)\<rparr>"

text \<open>
  \<^verbatim>\<open>log_action\<close>. The body of its \<^verbatim>\<open>try\<close> inserts one row; the insert fails
  with an \<^verbatim>\<open>IntegrityError\<close> when the session user's id is not in the mirrored
  \<^verbatim>\<open>users\<close> table (the foreign key of \<^verbatim>\<open>audit_trail.user_id\<close>, with
  \<^verbatim>\<open>PRAGMA foreign_keys = ON\<close>), and any call into SQLite may fail for a reason of
  the environment, given as \<open>fault\<close>. \<^verbatim>\<open>except Exception: pass\<close> catches both.
\<close>

definition log_action_body ::
  "db_error option \<Rightarrow> string \<Rightarrow> session_user option \<Rightarrow> string \<Rightarrow> int option \<Rightarrow> string
     \<Rightarrow> memo_db \<Rightarrow> db_error + memo_db" where
  "log_action_body fault now session action_name mid dtl db =
     (let uid = (case session of None \<Rightarrow> None | Some u \<Rightarrow> Some (user_id u)) in
      case fault of
        Some e \<Rightarrow> Inl e
      | None \<Rightarrow>
          if (case uid of None \<Rightarrow> False | Some i \<Rightarrow> i \<notin> u_id ` set (legacy_users db))
          then Inl (IntegrityError ''FOREIGN KEY constraint failed'')
          else Inr (db\<lparr>audit_trail := audit_trail db @
                        [\<lparr>ts = now, au_user_id = uid, action = action_name,
                          au_memo_id = mid, details = dtl\<rparr>]\<rparr>))"

definition log_action ::
  "db_error option \<Rightarrow> string \<Rightarrow> session_user option \<Rightarrow> string \<Rightarrow> int option \<Rightarrow> string
     \<Rightarrow> memo_db \<Rightarrow> db_error + memo_db" where
  "log_action fault now session action_name mid dtl db =
     (case log_action_body fault now session action_name mid dtl db of
        Inl e \<Rightarrow> Inr db
      | Inr db' \<Rightarrow> Inr db')"

subsection \<open>Prefixes\<close>

text \<open>
  \<^verbatim>\<open>get_setting(key, default)\<close>: the value of the first row with that key (the
  column is nullable), else the default.
\<close>

definition get_setting :: "string \<Rightarrow> string option \<Rightarrow> memo_db \<Rightarrow> string option" where
  "get_setting key dflt db =
     (case map_of (settings db) key of Some v \<Rightarrow> v | None \<Rightarrow> dflt)"

definition get_unit_prefix :: "string \<Rightarrow> memo_db \<Rightarrow> string option" where
  "get_unit_prefix unit_name db =
     (if unit_name = [] then get_setting ''control_prefix'' (Some ''MEMO'') db
      else (case map_of (control_prefixes db) unit_name of
              Some p \<Rightarrow> Some p
            | None \<Rightarrow> get_setting ''control_prefix'' (Some ''MEMO'') db))"

text \<open>
  The prefix the New Memorandum page takes. \<open>new_memo_units\<close> is the session entry of
  that name, absent until the unit selector has been drawn for a super user or admin.
\<close>

definition in_super_admin :: "string \<Rightarrow> bool" where
  "in_super_admin r = (r = ''super'' \<or> r = ''admin'')"

definition new_memo_unit_prefix ::
  "session_user \<Rightarrow> string list option \<Rightarrow> memo_db \<Rightarrow> string option" where
  "new_memo_unit_prefix cu new_memo_units db =
     (let current_units = units cu;
          sel_units = (if in_super_admin (role cu)
                       then (case new_memo_units of None \<Rightarrow> [] | Some us \<Rightarrow> us)
                       else current_units)
      in if sel_units \<noteq> [] then get_unit_prefix (hd sel_units) db
         else if current_units \<noteq> [] then get_unit_prefix (hd current_units) db
         else get_setting ''control_prefix'' (Some ''MEMO'') db)"

text \<open>An f-string prints \<^verbatim>\<open>None\<close> as the word \<^verbatim>\<open>None\<close>.\<close>

definition py_str :: "string option \<Rightarrow> string" where
  "py_str v = (case v of None \<Rightarrow> ''None'' | Some t \<Rightarrow> t)"

definition suggested_control_no ::
  "string \<Rightarrow> session_user \<Rightarrow> string list option \<Rightarrow> memo_db \<Rightarrow> string" where
  "suggested_control_no yy cu new_memo_units db =
     next_control_no yy (py_str (new_memo_unit_prefix cu new_memo_units db)) (memos db)"

subsection \<open>Saving a new memorandum\<close>

text \<open>
  \<^verbatim>\<open>INSERT INTO memos (...)\<close>: the \<^verbatim>\<open>UNIQUE\<close> constraint on \<^verbatim>\<open>control_no\<close>
  rejects a value that a row already holds (\<^verbatim>\<open>NULL\<close>s never collide); otherwise
  the row gets the next id. The \<open>memo_id\<close> of the argument is not used.
\<close>

definition next_memo_id :: "memo_db \<Rightarrow> int" where
  "next_memo_id db = fold max (map memo_id (memos db)) (max 0 (memos_seq db)) + 1"

definition insert_memo :: "memo \<Rightarrow> memo_db \<Rightarrow> db_error + (int \<times> memo_db)" where
  "insert_memo row db =
     (if control_no row \<noteq> None \<and> control_no row \<in> control_no ` set (memos db)
      then Inl (IntegrityError ''UNIQUE constraint failed: memos.control_no'')
      else (let i = next_memo_id db
            in Inr (i, db\<lparr>memos := memos db @ [row\<lparr>memo_id := i\<rparr>], memos_seq := i\<rparr>)))"

text \<open>The widgets of the New Memorandum page when Save is pressed.\<close>

record memo_form =
  ctrl_value :: string
  form_date_log :: string
  form_date_doc :: string
  form_memo_from :: string
  form_thru :: string
  form_subject :: string
  form_category :: string
  form_status :: string
  form_notes :: string
  form_new_memo_units :: "string list option"

datatype save_outcome = Saved int | ErrorShown string | NotAllowed | Uncaught db_error

fun join_comma :: "string list \<Rightarrow> string" where
  "join_comma [] = []"
| "join_comma [x] = x"
| "join_comma (x # y # ys) = x @ '', '' @ join_comma (y # ys)"

definition memo_for_units_of :: "session_user \<Rightarrow> memo_form \<Rightarrow> string list" where
  "memo_for_units_of cu frm =
     (if in_super_admin (role cu)
      then (case form_new_memo_units frm of None \<Rightarrow> units cu | Some us \<Rightarrow> us)
      else units cu)"

text \<open>
  The handler of the Save button; the page shows it to the roles \<^verbatim>\<open>user\<close>,
  \<^verbatim>\<open>super\<close> and \<^verbatim>\<open>admin\<close> only. Attachments (the table
  \<^verbatim>\<open>memo_files\<close> and the files on disk) are outside the model.
\<close>

definition save_memorandum ::
  "db_error option \<Rightarrow> string \<Rightarrow> session_user \<Rightarrow> memo_form \<Rightarrow> memo_db \<Rightarrow> save_outcome \<times> memo_db" where
  "save_memorandum log_fault now_iso cu frm db =
     (let memo_for_units = memo_for_units_of cu frm in
      if \<not> (in_super_admin (role cu) \<or> role cu = ''user'') then (NotAllowed, db)
      else if ctrl_value frm = []
      then (ErrorShown ''Memorandum Control No. is required.'', db)
      else if form_subject frm = [] then (ErrorShown ''Subject is required.'', db)
      else if memo_for_units = []
      then (ErrorShown ''At least one division/unit is required to tag this memorandum.'', db)
      else
        (case insert_memo
                \<lparr>memo_id = 0,
                 control_no = Some (strip (ctrl_value frm)),
                 date_log = Some (form_date_log frm),
                 date_doc = Some (form_date_doc frm),
                 memo_from = Some (strip (form_memo_from frm)),
                 thru = Some (strip (form_thru frm)),
                 memo_for = Some (join_comma (map strip memo_for_units)),
                 subject = Some (strip (form_subject frm)),
                 category = Some (form_category frm),
                 status = Some (form_status frm),
                 notes_col = Some (strip (form_notes frm)),
                 created_at = Some now_iso,
                 updated_at = Some now_iso\<rparr> db of
           Inl (IntegrityError msg) \<Rightarrow>
             (ErrorShown ''Control No. already exists. Please use another.'', db)
         | Inl (OperationalError msg) \<Rightarrow> (Uncaught (OperationalError msg), db)
         | Inr (new_id, db1) \<Rightarrow>
             (case log_action log_fault now_iso (Some cu) ''memo_create'' (Some new_id)
                     (''control='' @ strip (ctrl_value frm)) db1 of
                Inl e \<Rightarrow> (Uncaught e, db1)
              | Inr db2 \<Rightarrow> (Saved new_id, db2))))"

text \<open>The checks of the Save handler that come before the insert.\<close>

definition save_ready :: "session_user \<Rightarrow> memo_form \<Rightarrow> bool" where
  "save_ready cu frm \<longleftrightarrow>
     (in_super_admin (role cu) \<or> role cu = ''user'') \<and> ctrl_value frm \<noteq> []
     \<and> form_subject frm \<noteq> [] \<and> memo_for_units_of cu frm \<noteq> []"

text \<open>Example data for the memoranda database.\<close>

definition admin_row :: user_row where
  "admin_row =
     \<lparr>u_id = 1, u_username = Some ''admin'', u_email = Some ''admin@example.com'',
      password_hash = Some ''h0'', password_salt = Some ''s0'', u_role = Some ''admin'',
      is_active = Some 1, u_created_at = Some ''2025-01-01T00:00:00''\<rparr>"

definition small_db :: memo_db where
  "small_db =
     \<lparr>memos = [fiscal_memo, bare_memo 2 (Some ''FMG 25-004'')], memos_seq = 2,
      settings = [(''control_prefix'', Some ''MEMO'')],
      control_prefixes = [(''FMG'', ''FMG'')],
      legacy_users = [admin_row], audit_trail = []\<rparr>"

definition budget_form :: "string \<Rightarrow> memo_form" where
  "budget_form cn =
     \<lparr>ctrl_value = cn, form_date_log = ''2025-03-02'', form_date_doc = ''2025-03-02'',
      form_memo_from = ''Treasury'', form_thru = [], form_subject = ''Budget'',
      form_category = [], form_status = [], form_notes = [],
      form_new_memo_units = Some [''FMG'']\<rparr>"


section \<open>The user database and the password reset\<close>

text \<open>
  A row of \<^verbatim>\<open>password_reset_tokens\<close> (all columns \<^verbatim>\<open>NOT NULL\<close>; the
  \<^verbatim>\<open>id\<close> is not read) and the user database. Timestamps are the ISO strings the
  program stores and SQLite compares as text. A table is the list of its rows in the
  order a scan meets them; \<^verbatim>\<open>fetchone()\<close> takes the first that qualifies.
\<close>

record token_row =
  tok_user_id :: int
  token :: string
  expires_at :: string
  tok_created_at :: string

record user_db =
  users :: "user_row list"
  password_reset_tokens :: "token_row list"

text \<open>
  \<^verbatim>\<open>purge_expired_reset_tokens\<close>: \<^verbatim>\<open>DELETE ... WHERE expires_at < ?\<close> with the
  current UTC time.
\<close>

definition purge_expired_reset_tokens :: "string \<Rightarrow> user_db \<Rightarrow> user_db" where
  "purge_expired_reset_tokens now_iso udb =
     udb\<lparr>password_reset_tokens :=
           filter (\<lambda>t. \<not> expires_at t < now_iso) (password_reset_tokens udb)\<rparr>"

text \<open>\<^verbatim>\<open>LOWER(u.email) = LOWER(?)\<close>, false on a \<^verbatim>\<open>NULL\<close> email.\<close>

definition email_matches :: "string \<Rightarrow> user_row \<Rightarrow> bool" where
  "email_matches e u =
     (case u_email u of None \<Rightarrow> False | Some x \<Rightarrow> sql_lower x = sql_lower e)"

text \<open>
  What a run of the reset tab takes from outside: the clock readings, the token drawn
  by \<^verbatim>\<open>generate_reset_token\<close>, the answer of \<^verbatim>\<open>send_reset_email\<close>, the salt and
  hash \<^verbatim>\<open>hash_password\<close> computes for the new password, and whether SQLite fails.
\<close>

record reset_env =
  env_purge_now :: string
  env_query_now :: string
  env_token :: string
  env_expires_at :: string
  env_created_at :: string
  env_mail :: "bool \<times> string"
  env_hashed :: "string \<times> string"
  env_user_db_fault :: "string option"
  env_mirror_fault :: bool

definition create_password_reset_token ::
  "reset_env \<Rightarrow> string \<Rightarrow> user_db \<Rightarrow> (bool \<times> string) \<times> user_db" where
  "create_password_reset_token env email udb =
     (if email = [] then ((False, ''Email is required.''), udb)
      else
        (case find (email_matches (strip email)) (users udb) of
           None \<Rightarrow> ((False, ''No account found with that email.''), udb)
         | Some u \<Rightarrow>
             (let udb1 = purge_expired_reset_tokens (env_purge_now env) udb;
                  udb2 = udb1\<lparr>password_reset_tokens :=
                                password_reset_tokens udb1 @
                                  [\<lparr>tok_user_id = u_id u, token = env_token env,
                                    expires_at = env_expires_at env,
                                    tok_created_at = env_created_at env\<rparr>]\<rparr>
              in (if fst (env_mail env) then (True, snd (env_mail env))
                  else (False, snd (env_mail env)), udb2))))"

text \<open>
  \<^verbatim>\<open>validate_password_reset_token\<close>: the join of tokens and users, filtered, the
  newest token first, one row at most.
\<close>

definition validate_password_reset_token ::
  "reset_env \<Rightarrow> string \<Rightarrow> string \<Rightarrow> user_db \<Rightarrow> int option \<times> user_db" where
  "validate_password_reset_token env email tok udb =
     (if email = [] \<or> tok = [] then (None, udb)
      else
        (let udb1 = purge_expired_reset_tokens (env_purge_now env) udb;
             rows = [pr. pr \<leftarrow> password_reset_tokens udb1, u \<leftarrow> users udb1,
                         tok_user_id pr = u_id u \<and> email_matches (strip email) u
                         \<and> token pr = strip tok \<and> env_query_now env < expires_at pr];
             ordered = rev (sort_key tok_created_at rows)
         in (case ordered of [] \<Rightarrow> None | pr # rest \<Rightarrow> Some (tok_user_id pr), udb1)))"

text \<open>
  \<^verbatim>\<open>update_user_password\<close>. The table \<^verbatim>\<open>users\<close> of the user database has no
  column \<^verbatim>\<open>updated_at\<close>, so the first \<^verbatim>\<open>UPDATE\<close> raises and the fallback runs.
  An exception of the user database gives \<^verbatim>\<open>(False, ...)\<close> with nothing
  committed; one of the mirror is swallowed.
\<close>

definition set_password :: "string \<times> string \<Rightarrow> int \<Rightarrow> user_row list \<Rightarrow> user_row list" where
  "set_password hashed uid rows =
     sql_update (\<lambda>u. u_id u = uid)
       (\<lambda>u. u\<lparr>password_hash := Some (snd hashed), password_salt := Some (fst hashed)\<rparr>) rows"

definition update_user_password ::
  "reset_env \<Rightarrow> int \<Rightarrow> string \<Rightarrow> user_db \<Rightarrow> memo_db \<Rightarrow> (bool \<times> string) \<times> user_db \<times> memo_db" where
  "update_user_password env uid new_password udb mdb =
     (if new_password = [] then ((False, ''Password must not be empty.''), udb, mdb)
      else
        (case env_user_db_fault env of
           Some e \<Rightarrow> ((False, ''Failed to update password: '' @ e), udb, mdb)
         | None \<Rightarrow>
             (let udb1 = udb\<lparr>users := set_password (env_hashed env) uid (users udb),
                             password_reset_tokens :=
                               filter (\<lambda>t. tok_user_id t \<noteq> uid) (password_reset_tokens udb)\<rparr>;
                  mdb1 = (if env_mirror_fault env then mdb
                          else mdb\<lparr>legacy_users :=
                                     set_password (env_hashed env) uid (legacy_users mdb)\<rparr>)
              in ((True, ''Password updated successfully.''), udb1, mdb1))))"

text \<open>
  The Reset Password tab. The session holds the stage, the email and the user id; on
  first load the tab stores \<open>reset_session_init\<close>. Each run draws the form of the
  current stage only, so only that form can have been submitted. The note tells which
  of the three branches ending in \<^verbatim>\<open>st.success\<close> the run took, if any, with the
  email or user id that branch handled.
\<close>

record reset_session =
  reset_stage :: string
  reset_email :: string
  reset_user_id :: "int option"

definition reset_session_init :: reset_session where
  "reset_session_init = \<lparr>reset_stage = ''email'', reset_email = [], reset_user_id = None\<rparr>"

datatype reset_event =
  NoSubmit | SendResetToken string | VerifyToken string | ChangePassword string string

datatype reset_note = Stayed | TokenSent string | TokenVerified int | PasswordChanged int

definition reset_tab ::
  "reset_env \<Rightarrow> reset_event \<Rightarrow> reset_session \<Rightarrow> user_db \<Rightarrow> memo_db
     \<Rightarrow> reset_note \<times> reset_session \<times> user_db \<times> memo_db" where
  "reset_tab env ev st udb mdb =
     (if reset_stage st = ''email'' then
        (case ev of
           SendResetToken email_input \<Rightarrow>
             if email_input = [] then (Stayed, st, udb, mdb)
             else
               (case create_password_reset_token env (strip email_input) udb of
                  ((ok, msg), udb') \<Rightarrow>
                    if ok
                    then (TokenSent (strip email_input),
                          st\<lparr>reset_email := strip email_input, reset_stage := ''token''\<rparr>,
                          udb', mdb)
                    else (Stayed, st, udb', mdb))
         | _ \<Rightarrow> (Stayed, st, udb, mdb))
      else if reset_stage st = ''token'' then
        (case ev of
           VerifyToken token_input \<Rightarrow>
             if token_input = [] then (Stayed, st, udb, mdb)
             else
               (case validate_password_reset_token env (reset_email st) (strip token_input) udb of
                  (Some uid, udb') \<Rightarrow>
                    if uid \<noteq> 0
                    then (TokenVerified uid,
                          st\<lparr>reset_user_id := Some uid, reset_stage := ''password''\<rparr>,
                          udb', mdb)
                    else (Stayed, st, udb', mdb)
                | (None, udb') \<Rightarrow> (Stayed, st, udb', mdb))
         | _ \<Rightarrow> (Stayed, st, udb, mdb))
      else if reset_stage st = ''password'' then
        (case ev of
           ChangePassword new_pw new_pw2 \<Rightarrow>
             if new_pw = [] then (Stayed, st, udb, mdb)
             else if new_pw \<noteq> new_pw2 then (Stayed, st, udb, mdb)
             else
               (case reset_user_id st of
                  None \<Rightarrow> (Stayed, st, udb, mdb)
                | Some uid \<Rightarrow>
                    if uid = 0 then (Stayed, st, udb, mdb)
                    else
                      (case update_user_password env uid new_pw udb mdb of
                         ((ok, msg), udb', mdb') \<Rightarrow>
                           if ok then (PasswordChanged uid, reset_session_init, udb', mdb')
                           else (Stayed, st, udb', mdb')))
         | _ \<Rightarrow> (Stayed, st, udb, mdb))
      else (Stayed, st, udb, mdb))"

text \<open>
  A sequence of runs of the tab, with the notes that are not \<open>Stayed\<close> in order, and
  the order a three-step wizard gives them: a token is sent, then verified for a user,
  then the password of that same user is changed, and again from the start.
\<close>

fun reset_trace ::
  "(reset_env \<times> reset_event) list \<Rightarrow> reset_session \<Rightarrow> user_db \<Rightarrow> memo_db \<Rightarrow> reset_note list" where
  "reset_trace [] st udb mdb = []"
| "reset_trace ((env, ev) # steps) st udb mdb =
     (case reset_tab env ev st udb mdb of
        (note, st', udb', mdb') \<Rightarrow>
          (if note = Stayed then [] else [note]) @ reset_trace steps st' udb' mdb')"

fun wizard_order :: "reset_note list \<Rightarrow> bool" where
  "wizard_order [] = True"
| "wizard_order [TokenSent e] = True"
| "wizard_order [TokenSent e, TokenVerified u] = True"
| "wizard_order (TokenSent e # TokenVerified u # PasswordChanged u' # rest) =
     (u = u' \<and> wizard_order rest)"
| "wizard_order _ = False"

text \<open>
  Example data: two accounts whose emails differ in letter case only. Abe registered
  first and holds a token; Ann registered after him. The rows of \<^verbatim>\<open>users\<close> are in
  the order a lookup by email scans them, that of the index on \<^verbatim>\<open>email\<close>.
\<close>

definition ann_row :: user_row where
  "ann_row =
     \<lparr>u_id = 2, u_username = Some ''ann'', u_email = Some ''A@x.com'',
      password_hash = Some ''h1'', password_salt = Some ''s1'', u_role = Some ''user'',
      is_active = Some 1, u_created_at = Some ''2025-01-02T00:00:00''\<rparr>"

definition abe_row :: user_row where
  "abe_row =
     \<lparr>u_id = 1, u_username = Some ''abe'', u_email = Some ''a@x.com'',
      password_hash = Some ''h2'', password_salt = Some ''s2'', u_role = Some ''user'',
      is_active = Some 1, u_created_at = Some ''2025-01-01T00:00:00''\<rparr>"

definition abe_token :: token_row where
  "abe_token =
     \<lparr>tok_user_id = 1, token = ''123456'', expires_at = ''2025-09-10T12:30:00'',
      tok_created_at = ''2025-09-10T12:00:00''\<rparr>"

definition ann_token :: token_row where
  "ann_token =
     \<lparr>tok_user_id = 2, token = ''654321'', expires_at = ''2025-09-10T12:31:00'',
      tok_created_at = ''2025-09-10T12:01:00''\<rparr>"

definition two_users_db :: user_db where
  "two_users_db = \<lparr>users = [ann_row, abe_row], password_reset_tokens = [abe_token, ann_token]\<rparr>"

definition one_user_db :: user_db where
  "one_user_db = \<lparr>users = [ann_row], password_reset_tokens = [ann_token]\<rparr>"

definition noon_env :: reset_env where
  "noon_env =
     \<lparr>env_purge_now = ''2025-09-10T12:05:00'', env_query_now = ''2025-09-10T12:05:00'',
      env_token = ''777777'', env_expires_at = ''2025-09-10T12:35:00'',
      env_created_at = ''2025-09-10T12:05:00'',
      env_mail = (True, ''A reset token has been sent to your email.''),
      env_hashed = (''s9'', ''h9''), env_user_db_fault = None, env_mirror_fault = False\<rparr>"

section \<open>Properties of the control-number generator\<close>















section \<open>Properties of the memo listings\<close>



lemma sql_and_True: "sql_and a b = Some True \<longleftrightarrow> a = Some True \<and> b = Some True"
  by (cases a; cases b) (auto simp: sql_and_def)

lemma sql_or_True: "sql_or a b = Some True \<longleftrightarrow> a = Some True \<or> b = Some True"
  by (cases a; cases b) (auto simp: sql_or_def)

lemma foldl_sql_or_True:
  "foldl sql_or a cs = Some True \<longleftrightarrow> a = Some True \<or> Some True \<in> set cs"
  by (induction cs arbitrary: a) (auto simp: sql_or_True)

lemma or_join_True: "or_join cs = Some True \<longleftrightarrow> Some True \<in> set cs"
  by (cases cs) (auto simp: or_join_def foldl_sql_or_True)

lemma col_like_True: "col_like v pat = Some True \<longleftrightarrow> (\<exists>t. v = Some t \<and> sql_like pat t)"
  by (cases v) (auto simp: col_like_def)

lemma unit_conds_True:
  "or_join (map (\<lambda>un. col_like (memo_for m) (CHR ''%'' # un @ ''%'')) us) = Some True
     \<longleftrightarrow> unit_match us m"
proof -
  have "Some True \<in> set (map (\<lambda>un. col_like (memo_for m) (CHR ''%'' # un @ ''%'')) us)
          \<longleftrightarrow> (\<exists>un \<in> set us. col_like (memo_for m) (CHR ''%'' # un @ ''%'') = Some True)"
    by (force simp: image_iff)
  then show ?thesis
    by (cases "memo_for m") (auto simp: or_join_True unit_match_def col_like_True)
qed

lemma unit_match_Nil: "unit_match [] m = False"
  by (simp add: unit_match_def split: option.splits)

lemma where_non_admin:
  "role u \<noteq> ''admin'' \<Longrightarrow>
   memo_query_where f (Some u) m = Some True
     \<longleftrightarrow> filter_where f m = Some True \<and> unit_match (units u) m"
  by (cases "units u = []")
     (simp_all add: memo_query_where_def sql_and_True unit_conds_True unit_match_Nil)

lemma where_admin: "role u = ''admin'' \<Longrightarrow> memo_query_where f (Some u) m = filter_where f m"
  by (simp add: memo_query_where_def)

lemma set_order_by_log_desc: "set (order_by_log_desc rows) = set rows"
  by (simp add: order_by_log_desc_def)

lemma select_memos_non_admin:
  "role u \<noteq> ''admin'' \<Longrightarrow>
   select_memos f (Some u) ms =
     order_by_log_desc
       (filter (\<lambda>m. filter_where f m = Some True) (filter (unit_match (units u)) ms))"
  by (simp add: select_memos_def where_non_admin conj_commute)

lemma like_percent:
  "sql_like (CHR ''%'' # p) s \<longleftrightarrow> (\<exists>a b. s = a @ b \<and> sql_like p b)"
proof (induction s)
  case Nil
  show ?case by simp
next
  case (Cons c cs)
  show ?case
  proof
    assume "sql_like (CHR ''%'' # p) (c # cs)"
    then consider "sql_like p (c # cs)" | "sql_like (CHR ''%'' # p) cs" by auto
    then show "\<exists>a b. c # cs = a @ b \<and> sql_like p b"
    proof cases
      case 1
      then have "c # cs = [] @ (c # cs) \<and> sql_like p (c # cs)" by simp
      then show ?thesis by blast
    next
      case 2
      with Cons.IH obtain a b where "cs = a @ b" "sql_like p b" by blast
      then have "c # cs = (c # a) @ b \<and> sql_like p b" by simp
      then show ?thesis by blast
    qed
  next
    assume "\<exists>a b. c # cs = a @ b \<and> sql_like p b"
    then obtain a b where ab: "c # cs = a @ b" "sql_like p b" by blast
    show "sql_like (CHR ''%'' # p) (c # cs)"
    proof (cases a)
      case Nil
      with ab have "sql_like p (c # cs)" by simp
      then show ?thesis by simp
    next
      case (Cons x xs)
      with ab have "cs = xs @ b" by simp
      with ab(2) Cons.IH have "sql_like (CHR ''%'' # p) cs" by blast
      then show ?thesis by simp
    qed
  qed
qed

lemma like_literal:
  "CHR ''%'' \<notin> set u \<Longrightarrow> CHR ''_'' \<notin> set u \<Longrightarrow>
   sql_like (u @ p) s \<longleftrightarrow> (\<exists>b c. s = b @ c \<and> sql_lower b = sql_lower u \<and> sql_like p c)"
proof (induction u arbitrary: s)
  case Nil
  show ?case by (auto simp: sql_lower_def)
next
  case (Cons x xs)
  then have x: "x \<noteq> CHR ''%''" "x \<noteq> CHR ''_''"
    and IH: "\<And>s. sql_like (xs @ p) s \<longleftrightarrow> (\<exists>b c. s = b @ c \<and> sql_lower b = sql_lower xs \<and> sql_like p c)"
    by auto
  show ?case
  proof (cases s)
    case Nil
    then show ?thesis using x by (auto simp: sql_lower_def)
  next
    case (Cons d ds)
    have "sql_like ((x # xs) @ p) (d # ds) \<longleftrightarrow> ascii_lower x = ascii_lower d \<and> sql_like (xs @ p) ds"
      using x by simp
    also have "\<dots> \<longleftrightarrow> ascii_lower x = ascii_lower d \<and> (\<exists>b c. ds = b @ c \<and> sql_lower b = sql_lower xs \<and> sql_like p c)"
      using IH by simp
    also have "\<dots> \<longleftrightarrow> (\<exists>b c. d # ds = b @ c \<and> sql_lower b = sql_lower (x # xs) \<and> sql_like p c)"
    proof
      assume "ascii_lower x = ascii_lower d \<and> (\<exists>b c. ds = b @ c \<and> sql_lower b = sql_lower xs \<and> sql_like p c)"
      then obtain b c where "ascii_lower x = ascii_lower d" "ds = b @ c" "sql_lower b = sql_lower xs" "sql_like p c"
        by blast
      then have "d # ds = (d # b) @ c \<and> sql_lower (d # b) = sql_lower (x # xs) \<and> sql_like p c"
        by (simp add: sql_lower_def)
      then show "\<exists>b c. d # ds = b @ c \<and> sql_lower b = sql_lower (x # xs) \<and> sql_like p c"
        by blast
    next
      assume "\<exists>b c. d # ds = b @ c \<and> sql_lower b = sql_lower (x # xs) \<and> sql_like p c"
      then obtain b c where bc: "d # ds = b @ c" "sql_lower b = sql_lower (x # xs)" "sql_like p c"
        by blast
      from bc(2) obtain e es where b: "b = e # es" by (cases b) (auto simp: sql_lower_def)
      with bc show "ascii_lower x = ascii_lower d \<and> (\<exists>b c. ds = b @ c \<and> sql_lower b = sql_lower xs \<and> sql_like p c)"
        by (auto simp: sql_lower_def)
    qed
    finally show ?thesis using Cons by simp
  qed
qed

lemma like_any: "sql_like ''%'' s"
  using like_percent[of "[]" s] by simp

lemma like_contains:
  assumes "CHR ''%'' \<notin> set u" "CHR ''_'' \<notin> set u"
  shows "sql_like (CHR ''%'' # u @ ''%'') t
           \<longleftrightarrow> (\<exists>a b c. t = a @ b @ c \<and> sql_lower b = sql_lower u)"
proof -
  have "sql_like (CHR ''%'' # u @ ''%'') t \<longleftrightarrow> (\<exists>a r. t = a @ r \<and> sql_like (u @ ''%'') r)"
    by (rule like_percent)
  also have "\<dots> \<longleftrightarrow> (\<exists>a r. t = a @ r \<and> (\<exists>b c. r = b @ c \<and> sql_lower b = sql_lower u \<and> sql_like ''%'' c))"
    using like_literal[OF assms] by simp
  also have "\<dots> \<longleftrightarrow> (\<exists>a b c. t = a @ b @ c \<and> sql_lower b = sql_lower u)"
    using like_any by auto
  finally show ?thesis .
qed


lemma select_memos_admin:
  "role u = ''admin'' \<Longrightarrow>
   select_memos f (Some u) ms =
     order_by_log_desc (filter (\<lambda>m. filter_where f m = Some True) ms)"
  by (simp add: select_memos_def where_admin)

lemma set_select_memos_non_admin:
  "role u \<noteq> ''admin'' \<Longrightarrow>
   set (select_memos f (Some u) ms) =
     {m \<in> set ms. filter_where f m = Some True \<and> unit_match (units u) m}"
  by (auto simp: select_memos_non_admin set_order_by_log_desc)

text \<open>
  C8. For a signed-in user whose role is not \<^verbatim>\<open>admin\<close> and whose list of units is
  empty, the Dashboard query and the Monitor / Manage query return no row, whatever the
  memos table holds and whatever the other filters are.
\<close>

theorem no_units_empty_result:
  "role u \<noteq> ''admin'' \<Longrightarrow> units u = [] \<Longrightarrow>
   dashboard_query f (Some u) ms = [] \<and> manage_query f (Some u) ms = []"
proof -
  assume r: "role u \<noteq> ''admin''" and e: "units u = []"
  have "filter (unit_match (units u)) ms = []"
    using e by (simp add: unit_match_Nil)
  then have "select_memos f (Some u) ms = []"
    using r by (simp add: select_memos_non_admin order_by_log_desc_def)
  then show ?thesis
    by (simp add: dashboard_query_def manage_query_def)
qed

theorem no_units_empty_result_witness:
  "role (viewer_of []) \<noteq> ''admin'' \<and> units (viewer_of []) = []
   \<and> dashboard_query year_2025 (Some (viewer_of [])) [fiscal_memo] = []
   \<and> manage_query year_2025 (Some (viewer_of [])) [fiscal_memo] = []"
proof -
  have r: "role (viewer_of []) \<noteq> ''admin''" by (simp add: viewer_of_def)
  have e: "units (viewer_of []) = []" by (simp add: viewer_of_def)
  show ?thesis
    using r e no_units_empty_result [OF r e, of year_2025 "[fiscal_memo]"] by simp
qed

text \<open>
  C2 as stated (a memo is returned exactly when \<^verbatim>\<open>memo_for\<close> contains a unit name
  as a raw substring, nothing normalised) fails: for a viewer whose only unit is
  \<^verbatim>\<open>is\<close>, both pages return the memo for \<^verbatim>\<open>FISCAL\<close>, which does not contain
  the characters \<^verbatim>\<open>is\<close>. \<^verbatim>\<open>LIKE\<close> ignores the case of ASCII letters.
\<close>

theorem unit_filter_raw_substring_counterexample:
  "units (viewer_of [''is'']) = [''is''] \<and> role (viewer_of [''is'']) \<noteq> ''admin''
   \<and> memo_for fiscal_memo = Some ''FISCAL''
   \<and> \<not> raw_substring ''is'' ''FISCAL''
   \<and> dashboard_cols fiscal_memo
        \<in> set (dashboard_query year_2025 (Some (viewer_of [''is''])) [fiscal_memo])
   \<and> manage_cols fiscal_memo
        \<in> set (manage_query year_2025 (Some (viewer_of [''is''])) [fiscal_memo])"
proof -
  have d: "dashboard_query year_2025 (Some (viewer_of [''is''])) [fiscal_memo]
             = [dashboard_cols fiscal_memo]"
    by code_simp
  have g: "manage_query year_2025 (Some (viewer_of [''is''])) [fiscal_memo]
             = [manage_cols fiscal_memo]"
    by code_simp
  have n: "\<not> raw_substring ''is'' ''FISCAL''" by code_simp
  show ?thesis
    using d g n by (simp add: viewer_of_def fiscal_memo_def)
qed

text \<open>
  C2, amended. For a signed-in user whose role is not \<^verbatim>\<open>admin\<close> and who has at
  least one unit, each of the two listing queries returns exactly the rows of the
  memos that pass the page's other filters and whose \<^verbatim>\<open>memo_for\<close> is not
  \<^verbatim>\<open>NULL\<close> and satisfies \<^verbatim>\<open>memo_for LIKE '%unit%'\<close> for some unit of the user.
  When no unit name holds \<^verbatim>\<open>%\<close> or \<^verbatim>\<open>_\<close> (wildcards of \<^verbatim>\<open>LIKE\<close>), that is:
  \<^verbatim>\<open>memo_for\<close> contains some unit name up to the case of ASCII letters. There is no
  word-boundary check: a memo for \<^verbatim>\<open>FISCAL\<close> that passes the other filters is
  returned to a user of the unit \<^verbatim>\<open>IS\<close>.
\<close>

theorem unit_filter_like_match:
  "role u \<noteq> ''admin'' \<Longrightarrow> units u \<noteq> [] \<Longrightarrow>
   set (dashboard_query f (Some u) ms)
     = dashboard_cols ` {m \<in> set ms. filter_where f m = Some True \<and> unit_match (units u) m}
   \<and> set (manage_query f (Some u) ms)
     = manage_cols ` {m \<in> set ms. filter_where f m = Some True \<and> unit_match (units u) m}
   \<and> (\<forall>m. unit_match (units u) m
          \<longleftrightarrow> (\<exists>un \<in> set (units u). \<exists>t. memo_for m = Some t
                                         \<and> sql_like (CHR ''%'' # un @ ''%'') t))
   \<and> ((\<forall>un \<in> set (units u). CHR ''%'' \<notin> set un \<and> CHR ''_'' \<notin> set un) \<longrightarrow>
        (\<forall>m. unit_match (units u) m
          \<longleftrightarrow> (\<exists>un \<in> set (units u). \<exists>a b c. memo_for m = Some (a @ b @ c)
                                         \<and> sql_lower b = sql_lower un)))
   \<and> (\<forall>m \<in> set ms. ''IS'' \<in> set (units u) \<and> memo_for m = Some ''FISCAL''
          \<and> filter_where f m = Some True
        \<longrightarrow> dashboard_cols m \<in> set (dashboard_query f (Some u) ms)
            \<and> manage_cols m \<in> set (manage_query f (Some u) ms))"
proof -
  assume r: "role u \<noteq> ''admin''" and ne: "units u \<noteq> []"
  let ?V = "{m \<in> set ms. filter_where f m = Some True \<and> unit_match (units u) m}"
  have sel: "set (select_memos f (Some u) ms) = ?V"
    using r by (rule set_select_memos_non_admin)
  have d: "set (dashboard_query f (Some u) ms) = dashboard_cols ` ?V"
    unfolding dashboard_query_def using sel by simp
  have g: "set (manage_query f (Some u) ms) = manage_cols ` ?V"
    unfolding manage_query_def using sel by simp
  have um: "\<And>m. unit_match (units u) m
          \<longleftrightarrow> (\<exists>un \<in> set (units u). \<exists>t. memo_for m = Some t
                                         \<and> sql_like (CHR ''%'' # un @ ''%'') t)"
    by (auto simp: unit_match_def split: option.splits)
  have ci: "(\<forall>un \<in> set (units u). CHR ''%'' \<notin> set un \<and> CHR ''_'' \<notin> set un) \<longrightarrow>
        (\<forall>m. unit_match (units u) m
          \<longleftrightarrow> (\<exists>un \<in> set (units u). \<exists>a b c. memo_for m = Some (a @ b @ c)
                                         \<and> sql_lower b = sql_lower un))"
  proof (intro impI allI)
    fix m
    assume nw: "\<forall>un \<in> set (units u). CHR ''%'' \<notin> set un \<and> CHR ''_'' \<notin> set un"
    show "unit_match (units u) m
          \<longleftrightarrow> (\<exists>un \<in> set (units u). \<exists>a b c. memo_for m = Some (a @ b @ c)
                                         \<and> sql_lower b = sql_lower un)"
    proof (cases "memo_for m")
      case None
      then show ?thesis by (simp add: unit_match_def)
    next
      case (Some t)
      have "unit_match (units u) m \<longleftrightarrow> (\<exists>un \<in> set (units u). sql_like (CHR ''%'' # un @ ''%'') t)"
        using Some by (simp add: unit_match_def)
      also have "\<dots> \<longleftrightarrow> (\<exists>un \<in> set (units u). \<exists>a b c. t = a @ b @ c \<and> sql_lower b = sql_lower un)"
        using nw like_contains by (meson)
      finally show ?thesis using Some by simp
    qed
  qed
  have fis: "sql_like (CHR ''%'' # ''IS'' @ ''%'') ''FISCAL''" by code_simp
  have ex: "\<forall>m \<in> set ms. ''IS'' \<in> set (units u) \<and> memo_for m = Some ''FISCAL''
          \<and> filter_where f m = Some True
        \<longrightarrow> dashboard_cols m \<in> set (dashboard_query f (Some u) ms)
            \<and> manage_cols m \<in> set (manage_query f (Some u) ms)"
  proof (intro ballI impI)
    fix m
    assume m: "m \<in> set ms" and h: "''IS'' \<in> set (units u) \<and> memo_for m = Some ''FISCAL''
          \<and> filter_where f m = Some True"
    then have "unit_match (units u) m"
      using fis um by blast
    with m h have "m \<in> ?V" by simp
    then show "dashboard_cols m \<in> set (dashboard_query f (Some u) ms)
            \<and> manage_cols m \<in> set (manage_query f (Some u) ms)"
      unfolding d g by blast
  qed
  from d g um ci ex show ?thesis by blast
qed

theorem unit_filter_like_match_witness:
  "role (viewer_of [''IS'']) \<noteq> ''admin'' \<and> units (viewer_of [''IS'']) \<noteq> []
   \<and> dashboard_cols fiscal_memo
        \<in> set (dashboard_query year_2025 (Some (viewer_of [''IS''])) [fiscal_memo])
   \<and> manage_cols fiscal_memo
        \<in> set (manage_query year_2025 (Some (viewer_of [''IS''])) [fiscal_memo])"
proof -
  have r: "role (viewer_of [''IS'']) \<noteq> ''admin''" by (simp add: viewer_of_def)
  have ne: "units (viewer_of [''IS'']) \<noteq> []" by (simp add: viewer_of_def)
  have fw: "filter_where year_2025 fiscal_memo = Some True" by code_simp
  have mf: "memo_for fiscal_memo = Some ''FISCAL''" by (simp add: fiscal_memo_def)
  have un: "''IS'' \<in> set (units (viewer_of [''IS'']))" by (simp add: viewer_of_def)
  from unit_filter_like_match [OF r ne, of year_2025 "[fiscal_memo]"]
  have "\<forall>m \<in> set [fiscal_memo].
          ''IS'' \<in> set (units (viewer_of [''IS''])) \<and> memo_for m = Some ''FISCAL''
          \<and> filter_where year_2025 m = Some True
        \<longrightarrow> dashboard_cols m
              \<in> set (dashboard_query year_2025 (Some (viewer_of [''IS''])) [fiscal_memo])
            \<and> manage_cols m
              \<in> set (manage_query year_2025 (Some (viewer_of [''IS''])) [fiscal_memo])"
    by (elim conjE)
  with r ne fw mf un show ?thesis by simp
qed

text \<open>
  C3. For a signed-in user whose role is not \<^verbatim>\<open>admin\<close>, the result of either
  listing query is the same on two memos tables that agree on the memos whose
  \<^verbatim>\<open>memo_for\<close> matches one of the user's units; so adding a memo that matches none
  of them, or replacing such a memo by another that matches none, changes nothing. For
  the role \<^verbatim>\<open>admin\<close> the result is that of the page's filters alone: the units play
  no part.
\<close>

theorem listing_ignores_unmatched_memos:
  "(role u \<noteq> ''admin'' \<longrightarrow>
      (filter (unit_match (units u)) ms = filter (unit_match (units u)) ms' \<longrightarrow>
         dashboard_query f (Some u) ms = dashboard_query f (Some u) ms'
         \<and> manage_query f (Some u) ms = manage_query f (Some u) ms')
      \<and> (\<not> unit_match (units u) m' \<longrightarrow>
         dashboard_query f (Some u) (ms1 @ m' # ms2) = dashboard_query f (Some u) (ms1 @ ms2)
         \<and> manage_query f (Some u) (ms1 @ m' # ms2) = manage_query f (Some u) (ms1 @ ms2))
      \<and> (\<not> unit_match (units u) m' \<and> \<not> unit_match (units u) m'' \<longrightarrow>
         dashboard_query f (Some u) (ms1 @ m' # ms2)
           = dashboard_query f (Some u) (ms1 @ m'' # ms2)
         \<and> manage_query f (Some u) (ms1 @ m' # ms2)
           = manage_query f (Some u) (ms1 @ m'' # ms2)))
   \<and> (role u = ''admin'' \<longrightarrow>
        dashboard_query f (Some u) ms
          = map dashboard_cols
              (order_by_log_desc (filter (\<lambda>m. filter_where f m = Some True) ms))
        \<and> manage_query f (Some u) ms
          = map manage_cols
              (order_by_log_desc (filter (\<lambda>m. filter_where f m = Some True) ms)))"
proof (intro conjI impI)
  assume r: "role u \<noteq> ''admin''"
     and eq: "filter (unit_match (units u)) ms = filter (unit_match (units u)) ms'"
  from r eq have "select_memos f (Some u) ms = select_memos f (Some u) ms'"
    by (simp add: select_memos_non_admin)
  then show "dashboard_query f (Some u) ms = dashboard_query f (Some u) ms'"
    and "manage_query f (Some u) ms = manage_query f (Some u) ms'"
    by (simp_all add: dashboard_query_def manage_query_def)
next
  assume r: "role u \<noteq> ''admin''" and n: "\<not> unit_match (units u) m'"
  from r n have "select_memos f (Some u) (ms1 @ m' # ms2) = select_memos f (Some u) (ms1 @ ms2)"
    by (simp add: select_memos_non_admin)
  then show "dashboard_query f (Some u) (ms1 @ m' # ms2) = dashboard_query f (Some u) (ms1 @ ms2)"
    and "manage_query f (Some u) (ms1 @ m' # ms2) = manage_query f (Some u) (ms1 @ ms2)"
    by (simp_all add: dashboard_query_def manage_query_def)
next
  assume r: "role u \<noteq> ''admin''"
     and n: "\<not> unit_match (units u) m' \<and> \<not> unit_match (units u) m''"
  from r n have "select_memos f (Some u) (ms1 @ m' # ms2)
                   = select_memos f (Some u) (ms1 @ m'' # ms2)"
    by (simp add: select_memos_non_admin)
  then show "dashboard_query f (Some u) (ms1 @ m' # ms2)
               = dashboard_query f (Some u) (ms1 @ m'' # ms2)"
    and "manage_query f (Some u) (ms1 @ m' # ms2) = manage_query f (Some u) (ms1 @ m'' # ms2)"
    by (simp_all add: dashboard_query_def manage_query_def)
next
  assume a: "role u = ''admin''"
  then show "dashboard_query f (Some u) ms
          = map dashboard_cols
              (order_by_log_desc (filter (\<lambda>m. filter_where f m = Some True) ms))"
    and "manage_query f (Some u) ms
          = map manage_cols
              (order_by_log_desc (filter (\<lambda>m. filter_where f m = Some True) ms))"
    by (simp_all add: dashboard_query_def manage_query_def select_memos_admin)
qed

theorem listing_ignores_unmatched_memos_witness:
  "role (viewer_of [''HR'']) \<noteq> ''admin''
   \<and> \<not> unit_match (units (viewer_of [''HR''])) fiscal_memo
   \<and> dashboard_query year_2025 (Some (viewer_of [''HR''])) ([] @ fiscal_memo # [])
       = dashboard_query year_2025 (Some (viewer_of [''HR''])) ([] @ [])
   \<and> role (admin_of [''HR'']) = ''admin''
   \<and> dashboard_query year_2025 (Some (admin_of [''HR''])) [fiscal_memo]
       = [dashboard_cols fiscal_memo]"
proof -
  have r: "role (viewer_of [''HR'']) \<noteq> ''admin''" by (simp add: viewer_of_def)
  have n: "\<not> unit_match (units (viewer_of [''HR''])) fiscal_memo" by code_simp
  have a: "role (admin_of [''HR'']) = ''admin''" by (simp add: admin_of_def)
  have s: "order_by_log_desc (filter (\<lambda>m. filter_where year_2025 m = Some True) [fiscal_memo])
             = [fiscal_memo]"
    by code_simp
  show ?thesis
    using r n a s
      listing_ignores_unmatched_memos [of "viewer_of [''HR'']" "[]" "[]" year_2025
         fiscal_memo "[]" "[]" fiscal_memo]
      listing_ignores_unmatched_memos [of "admin_of [''HR'']" "[fiscal_memo]" "[fiscal_memo]"
         year_2025 fiscal_memo "[]" "[]" fiscal_memo]
    by simp
qed

section \<open>Properties of the memoranda database operations\<close>


lemma length_sql_update: "length (sql_update c f rs) = length rs"
  by (induction rs) auto

lemma nth_sql_update:
  "i < length rs \<Longrightarrow> sql_update c f rs ! i = (if c (rs ! i) then f (rs ! i) else rs ! i)"
proof (induction rs arbitrary: i)
  case Nil
  then show ?case by simp
next
  case (Cons r rs)
  then show ?case by (cases i) auto
qed

text \<open>
  C9. \<^verbatim>\<open>clear_memo_contents(memo_id)\<close> keeps every row in its place. On a row with
  the given id it sets \<^verbatim>\<open>date_log\<close> and \<^verbatim>\<open>date_doc\<close> to \<^verbatim>\<open>NULL\<close>,
  \<^verbatim>\<open>memo_from\<close>, \<^verbatim>\<open>thru\<close>, \<^verbatim>\<open>memo_for\<close>, \<^verbatim>\<open>subject\<close> and \<^verbatim>\<open>notes\<close> to
  the empty string and \<^verbatim>\<open>updated_at\<close> to the current time; \<^verbatim>\<open>id\<close>,
  \<^verbatim>\<open>control_no\<close>, \<^verbatim>\<open>category\<close>, \<^verbatim>\<open>status\<close> and \<^verbatim>\<open>created_at\<close> stay as
  they were. Every other row, and every other table, is unchanged.
\<close>

theorem clear_memo_contents_frame:
  "length (memos (clear_memo_contents now mid db)) = length (memos db)
   \<and> (\<forall>i < length (memos db).
         memo_id (memos (clear_memo_contents now mid db) ! i) = memo_id (memos db ! i)
       \<and> control_no (memos (clear_memo_contents now mid db) ! i) = control_no (memos db ! i)
       \<and> category (memos (clear_memo_contents now mid db) ! i) = category (memos db ! i)
       \<and> status (memos (clear_memo_contents now mid db) ! i) = status (memos db ! i)
       \<and> created_at (memos (clear_memo_contents now mid db) ! i) = created_at (memos db ! i)
       \<and> (memo_id (memos db ! i) = mid \<longrightarrow>
            date_log (memos (clear_memo_contents now mid db) ! i) = None
          \<and> date_doc (memos (clear_memo_contents now mid db) ! i) = None
          \<and> memo_from (memos (clear_memo_contents now mid db) ! i) = Some []
          \<and> thru (memos (clear_memo_contents now mid db) ! i) = Some []
          \<and> memo_for (memos (clear_memo_contents now mid db) ! i) = Some []
          \<and> subject (memos (clear_memo_contents now mid db) ! i) = Some []
          \<and> notes_col (memos (clear_memo_contents now mid db) ! i) = Some []
          \<and> updated_at (memos (clear_memo_contents now mid db) ! i) = Some now)
       \<and> (memo_id (memos db ! i) \<noteq> mid \<longrightarrow>
            memos (clear_memo_contents now mid db) ! i = memos db ! i))
   \<and> memos_seq (clear_memo_contents now mid db) = memos_seq db
   \<and> settings (clear_memo_contents now mid db) = settings db
   \<and> control_prefixes (clear_memo_contents now mid db) = control_prefixes db
   \<and> legacy_users (clear_memo_contents now mid db) = legacy_users db
   \<and> audit_trail (clear_memo_contents now mid db) = audit_trail db"
  by (simp add: clear_memo_contents_def length_sql_update nth_sql_update)

theorem clear_memo_contents_frame_witness:
  "memos (clear_memo_contents ''2025-03-05T10:00:00'' 1 small_db)
     = [fiscal_memo\<lparr>date_log := None, date_doc := None, memo_from := Some [],
                    thru := Some [], memo_for := Some [], subject := Some [],
                    notes_col := Some [], updated_at := Some ''2025-03-05T10:00:00''\<rparr>,
        bare_memo 2 (Some ''FMG 25-004'')]"
proof -
  have l: "length (memos small_db) = 2" by (simp add: small_db_def)
  have m0: "memos small_db ! 0 = fiscal_memo" by (simp add: small_db_def)
  have m1: "memos small_db ! 1 = bare_memo 2 (Some ''FMG 25-004'')" by (simp add: small_db_def)
  have i0: "memo_id fiscal_memo = 1" by (simp add: fiscal_memo_def)
  have i1: "memo_id (bare_memo 2 (Some ''FMG 25-004'')) \<noteq> 1" by (simp add: bare_memo_def)
  let ?db' = "clear_memo_contents ''2025-03-05T10:00:00'' 1 small_db"
  note t = clear_memo_contents_frame [of "''2025-03-05T10:00:00''" 1 small_db]
  from t l have len: "length (memos ?db') = 2" by simp
  from t l have a0: "\<forall>i<2. memo_id (memos small_db ! i) \<noteq> 1 \<longrightarrow> memos ?db' ! i = memos small_db ! i"
    by simp
  then have e1: "memos ?db' ! 1 = bare_memo 2 (Some ''FMG 25-004'')"
    using m1 i1 by simp
  have e0: "memos ?db' ! 0 = fiscal_memo\<lparr>date_log := None, date_doc := None, memo_from := Some [],
                    thru := Some [], memo_for := Some [], subject := Some [],
                    notes_col := Some [], updated_at := Some ''2025-03-05T10:00:00''\<rparr>"
    using t l m0 i0 by (intro memo.equality) (simp_all add: fiscal_memo_def)
  show ?thesis
    using len e0 e1 by (intro nth_equalityI) (auto simp: less_Suc_eq numeral_2_eq_2)
qed

text \<open>
  C7. For every action, memo id, details, session and failure of the database,
  \<^verbatim>\<open>log_action\<close> returns normally (the result is never an exception): either one
  row has been appended to \<^verbatim>\<open>audit_trail\<close>, or the exception was swallowed and the
  database is as before.
\<close>

theorem log_action_never_raises:
  "\<exists>db'. log_action fault now session a mid dtl db = Inr db'
         \<and> (db' = db
            \<or> db' = db\<lparr>audit_trail := audit_trail db @
                        [\<lparr>ts = now,
                          au_user_id = (case session of None \<Rightarrow> None | Some u \<Rightarrow> Some (user_id u)),
                          action = a, au_memo_id = mid, details = dtl\<rparr>]\<rparr>)"
  by (auto simp: log_action_def log_action_body_def Let_def split: option.splits sum.splits)

theorem log_action_never_raises_witness:
  "\<exists>db'. log_action (Some (OperationalError ''database is locked''))
            ''2025-03-02T09:00:00'' (Some (admin_of [])) ''login'' None [] small_db = Inr db'"
  using log_action_never_raises
          [of "Some (OperationalError ''database is locked'')" "''2025-03-02T09:00:00''"
              "Some (admin_of [])" "''login''" None "[]" small_db]
  by blast

text \<open>
  C5. \<^verbatim>\<open>get_unit_prefix(unit_name)\<close> returns the prefix stored in
  \<^verbatim>\<open>control_prefixes\<close> under exactly that name when the name is not blank and such
  a row exists; when the name is blank or has no row, it returns the setting
  \<^verbatim>\<open>control_prefix\<close>, or \<^verbatim>\<open>MEMO\<close> when that setting is absent. The control number
  the New Memorandum page suggests is generated with the prefix of the first selected
  unit: the first unit of a regular user, the first unit chosen by a super user or admin.
\<close>

theorem prefix_per_unit:
  "(unit_name \<noteq> [] \<and> map_of (control_prefixes db) unit_name = Some p
      \<longrightarrow> get_unit_prefix unit_name db = Some p)
   \<and> (unit_name = [] \<or> unit_name \<notin> fst ` set (control_prefixes db)
      \<longrightarrow> get_unit_prefix unit_name db
            = (case map_of (settings db) ''control_prefix'' of
                 None \<Rightarrow> Some ''MEMO'' | Some v \<Rightarrow> v))
   \<and> (\<not> in_super_admin (role cu) \<and> units cu \<noteq> []
      \<longrightarrow> suggested_control_no yy cu nmu db
            = next_control_no yy (py_str (get_unit_prefix (hd (units cu)) db)) (memos db))
   \<and> (in_super_admin (role cu) \<and> nmu = Some (un # rest)
      \<longrightarrow> suggested_control_no yy cu nmu db
            = next_control_no yy (py_str (get_unit_prefix un db)) (memos db))"
proof (intro conjI impI)
  assume "unit_name \<noteq> [] \<and> map_of (control_prefixes db) unit_name = Some p"
  then show "get_unit_prefix unit_name db = Some p"
    by (simp add: get_unit_prefix_def)
next
  assume h: "unit_name = [] \<or> unit_name \<notin> fst ` set (control_prefixes db)"
  have dflt: "get_setting ''control_prefix'' (Some ''MEMO'') db
                = (case map_of (settings db) ''control_prefix'' of
                     None \<Rightarrow> Some ''MEMO'' | Some v \<Rightarrow> v)"
    by (simp add: get_setting_def split: option.splits)
  from h show "get_unit_prefix unit_name db
            = (case map_of (settings db) ''control_prefix'' of
                 None \<Rightarrow> Some ''MEMO'' | Some v \<Rightarrow> v)"
  proof
    assume "unit_name = []"
    then show ?thesis using dflt by (simp add: get_unit_prefix_def)
  next
    assume "unit_name \<notin> fst ` set (control_prefixes db)"
    then have "map_of (control_prefixes db) unit_name = None"
      by (simp add: map_of_eq_None_iff)
    then show ?thesis using dflt by (simp add: get_unit_prefix_def)
  qed
next
  assume "\<not> in_super_admin (role cu) \<and> units cu \<noteq> []"
  then show "suggested_control_no yy cu nmu db
            = next_control_no yy (py_str (get_unit_prefix (hd (units cu)) db)) (memos db)"
    by (simp add: suggested_control_no_def new_memo_unit_prefix_def)
next
  assume "in_super_admin (role cu) \<and> nmu = Some (un # rest)"
  then show "suggested_control_no yy cu nmu db
            = next_control_no yy (py_str (get_unit_prefix un db)) (memos db)"
    by (simp add: suggested_control_no_def new_memo_unit_prefix_def)
qed

theorem prefix_per_unit_witness:
  "get_unit_prefix ''FMG'' small_db = Some ''FMG''
   \<and> get_unit_prefix ''fmg'' small_db = Some ''MEMO''
   \<and> get_unit_prefix [] small_db = Some ''MEMO''
   \<and> suggested_control_no ''25'' (viewer_of [''FMG'', ''HR'']) None small_db
       = next_control_no ''25'' ''FMG'' (memos small_db)
   \<and> suggested_control_no ''25'' (admin_of [''HR'']) (Some [''FMG'', ''HR'']) small_db
       = next_control_no ''25'' ''FMG'' (memos small_db)"
proof -
  have c1: "''FMG'' \<noteq> [] \<and> map_of (control_prefixes small_db) ''FMG'' = Some ''FMG''"
    by (simp add: small_db_def)
  have c2: "''fmg'' = [] \<or> ''fmg'' \<notin> fst ` set (control_prefixes small_db)"
    by (simp add: small_db_def)
  have c3: "[] = [] \<or> [] \<notin> fst ` set (control_prefixes small_db)"
    by simp
  have c4: "\<not> in_super_admin (role (viewer_of [''FMG'', ''HR'']))
              \<and> units (viewer_of [''FMG'', ''HR'']) \<noteq> []"
    by (simp add: viewer_of_def in_super_admin_def)
  have c5: "in_super_admin (role (admin_of [''HR''])) \<and> Some [''FMG'', ''HR''] = Some (''FMG'' # [''HR''])"
    by (simp add: admin_of_def in_super_admin_def)
  have s: "map_of (settings small_db) ''control_prefix'' = Some (Some ''MEMO'')"
    by (simp add: small_db_def)
  have h: "hd (units (viewer_of [''FMG'', ''HR''])) = ''FMG''" by (simp add: viewer_of_def)
  from c1 prefix_per_unit [of "''FMG''" small_db "''FMG''"]
  have r1: "get_unit_prefix ''FMG'' small_db = Some ''FMG''" by blast
  from c2 s prefix_per_unit [of "''fmg''" small_db]
  have r2: "get_unit_prefix ''fmg'' small_db = Some ''MEMO''" by simp
  from c3 s prefix_per_unit [of "[]" small_db]
  have r3: "get_unit_prefix [] small_db = Some ''MEMO''" by simp
  from c4 prefix_per_unit [of _ small_db _ "viewer_of [''FMG'', ''HR'']" "''25''" None]
  have r4: "suggested_control_no ''25'' (viewer_of [''FMG'', ''HR'']) None small_db
       = next_control_no ''25'' (py_str (get_unit_prefix (hd (units (viewer_of [''FMG'', ''HR'']))) small_db)) (memos small_db)"
    by blast
  from c5 prefix_per_unit [of _ small_db _ "admin_of [''HR'']" "''25''" "Some [''FMG'', ''HR'']" "''FMG''" "[''HR'']"]
  have r5: "suggested_control_no ''25'' (admin_of [''HR'']) (Some [''FMG'', ''HR'']) small_db
       = next_control_no ''25'' (py_str (get_unit_prefix ''FMG'' small_db)) (memos small_db)"
    by blast
  show ?thesis
    using r1 r2 r3 r4 r5 h by (simp add: py_str_def)
qed

subsection \<open>Saving and the uniqueness of control numbers\<close>


lemma log_action_keeps_memos:
  "\<exists>db'. log_action f n s a m d db = Inr db' \<and> memos db' = memos db"
  by (auto simp: log_action_def log_action_body_def Let_def split: option.splits sum.splits)

lemma insert_memo_duplicate:
  "control_no row = Some cn \<Longrightarrow> Some cn \<in> control_no ` set (memos db) \<Longrightarrow>
   insert_memo row db = Inl (IntegrityError ''UNIQUE constraint failed: memos.control_no'')"
  by (simp add: insert_memo_def)

lemma insert_memo_fresh:
  "control_no row = Some cn \<Longrightarrow> Some cn \<notin> control_no ` set (memos db) \<Longrightarrow>
   insert_memo row db =
     Inr (next_memo_id db,
          db\<lparr>memos := memos db @ [row\<lparr>memo_id := next_memo_id db\<rparr>],
             memos_seq := next_memo_id db\<rparr>)"
  by (simp add: insert_memo_def Let_def)


lemma save_duplicate:
  assumes "save_ready cu frm" "Some (strip (ctrl_value frm)) \<in> control_no ` set (memos db)"
  shows "save_memorandum lf now cu frm db
           = (ErrorShown ''Control No. already exists. Please use another.'', db)"
  using assms
  by (simp add: save_memorandum_def save_ready_def Let_def insert_memo_def)

lemma save_fresh:
  assumes "save_ready cu frm" "Some (strip (ctrl_value frm)) \<notin> control_no ` set (memos db)"
  shows "\<exists>db'. save_memorandum lf now cu frm db = (Saved (next_memo_id db), db')
           \<and> length (memos db') = Suc (length (memos db))
           \<and> butlast (memos db') = memos db
           \<and> control_no (last (memos db')) = Some (strip (ctrl_value frm))
           \<and> memo_id (last (memos db')) = next_memo_id db"
proof -
  let ?row = "\<lparr>memo_id = 0,
                 control_no = Some (strip (ctrl_value frm)),
                 date_log = Some (form_date_log frm),
                 date_doc = Some (form_date_doc frm),
                 memo_from = Some (strip (form_memo_from frm)),
                 thru = Some (strip (form_thru frm)),
                 memo_for = Some (join_comma (map strip (memo_for_units_of cu frm))),
                 subject = Some (strip (form_subject frm)),
                 category = Some (form_category frm),
                 status = Some (form_status frm),
                 notes_col = Some (strip (form_notes frm)),
                 created_at = Some now,
                 updated_at = Some now\<rparr>"
  let ?db1 = "db\<lparr>memos := memos db @ [?row\<lparr>memo_id := next_memo_id db\<rparr>],
                 memos_seq := next_memo_id db\<rparr>"
  have ins: "insert_memo ?row db = Inr (next_memo_id db, ?db1)"
    using assms(2) by (intro insert_memo_fresh) simp_all
  obtain db2 where lg: "log_action lf now (Some cu) ''memo_create'' (Some (next_memo_id db))
                     (''control='' @ strip (ctrl_value frm)) ?db1 = Inr db2"
    and m2: "memos db2 = memos ?db1"
    using log_action_keeps_memos by blast
  have "save_memorandum lf now cu frm db = (Saved (next_memo_id db), db2)"
    using assms(1) ins lg by (simp add: save_memorandum_def save_ready_def Let_def)
  moreover have "length (memos db2) = Suc (length (memos db))" using m2 by simp
  moreover have "butlast (memos db2) = memos db" using m2 by simp
  moreover have "control_no (last (memos db2)) = Some (strip (ctrl_value frm))" using m2 by simp
  moreover have "memo_id (last (memos db2)) = next_memo_id db" using m2 by simp
  ultimately show ?thesis by blast
qed

text \<open>
  C4. Nothing checks a control number before the insert. \<^verbatim>\<open>next_control_no\<close> only
  reads the table (in the model it returns a string and no database). When the form
  passes the handler's own checks and the stripped control number is that of an
  existing memo, the insert fails on the \<^verbatim>\<open>UNIQUE\<close> constraint, the user is shown
  "Control No. already exists. Please use another." and the database is as before. When
  no memo holds the number, the save succeeds and appends the row; from then on every
  save with the same number, by anyone, fails in that way.
\<close>

theorem save_unique_only_at_insert:
  "save_ready cu frm \<longrightarrow>
   (Some (strip (ctrl_value frm)) \<in> control_no ` set (memos db) \<longrightarrow>
      save_memorandum lf now cu frm db
        = (ErrorShown ''Control No. already exists. Please use another.'', db))
   \<and> (Some (strip (ctrl_value frm)) \<notin> control_no ` set (memos db) \<longrightarrow>
      (\<exists>i db'. save_memorandum lf now cu frm db = (Saved i, db')
         \<and> butlast (memos db') = memos db
         \<and> control_no (last (memos db')) = Some (strip (ctrl_value frm))
         \<and> (\<forall>lf2 now2 cu2 frm2.
               save_ready cu2 frm2 \<and> strip (ctrl_value frm2) = strip (ctrl_value frm) \<longrightarrow>
               save_memorandum lf2 now2 cu2 frm2 db'
                 = (ErrorShown ''Control No. already exists. Please use another.'', db'))))"
proof (intro impI conjI)
  assume rd: "save_ready cu frm"
  {
    assume "Some (strip (ctrl_value frm)) \<in> control_no ` set (memos db)"
    with rd show "save_memorandum lf now cu frm db
        = (ErrorShown ''Control No. already exists. Please use another.'', db)"
      by (rule save_duplicate)
  next
    assume "Some (strip (ctrl_value frm)) \<notin> control_no ` set (memos db)"
    with rd obtain db' where s: "save_memorandum lf now cu frm db = (Saved (next_memo_id db), db')"
      and l: "length (memos db') = Suc (length (memos db))"
      and b: "butlast (memos db') = memos db"
      and c: "control_no (last (memos db')) = Some (strip (ctrl_value frm))"
      using save_fresh by blast
    from l have "memos db' \<noteq> []" by auto
    then have "last (memos db') \<in> set (memos db')" by simp
    with c have dup: "Some (strip (ctrl_value frm)) \<in> control_no ` set (memos db')"
      by (metis image_eqI)
    have again: "\<forall>lf2 now2 cu2 frm2.
               save_ready cu2 frm2 \<and> strip (ctrl_value frm2) = strip (ctrl_value frm) \<longrightarrow>
               save_memorandum lf2 now2 cu2 frm2 db'
                 = (ErrorShown ''Control No. already exists. Please use another.'', db')"
    proof (intro allI impI)
      fix lf2 now2 cu2 frm2
      assume h: "save_ready cu2 frm2 \<and> strip (ctrl_value frm2) = strip (ctrl_value frm)"
      with dup have "Some (strip (ctrl_value frm2)) \<in> control_no ` set (memos db')" by simp
      with h show "save_memorandum lf2 now2 cu2 frm2 db'
                 = (ErrorShown ''Control No. already exists. Please use another.'', db')"
        by (intro save_duplicate) simp_all
    qed
    with s b c show "\<exists>i db'. save_memorandum lf now cu frm db = (Saved i, db')
         \<and> butlast (memos db') = memos db
         \<and> control_no (last (memos db')) = Some (strip (ctrl_value frm))
         \<and> (\<forall>lf2 now2 cu2 frm2.
               save_ready cu2 frm2 \<and> strip (ctrl_value frm2) = strip (ctrl_value frm) \<longrightarrow>
               save_memorandum lf2 now2 cu2 frm2 db'
                 = (ErrorShown ''Control No. already exists. Please use another.'', db'))"
      by blast
  }
qed

theorem save_unique_only_at_insert_witness:
  "save_ready (admin_of [''HR'']) (budget_form '' MEMO 25-001 '')
   \<and> Some (strip (ctrl_value (budget_form '' MEMO 25-001 ''))) \<in> control_no ` set (memos small_db)
   \<and> save_memorandum None ''2025-03-02T09:00:00'' (admin_of [''HR''])
        (budget_form '' MEMO 25-001 '') small_db
       = (ErrorShown ''Control No. already exists. Please use another.'', small_db)
   \<and> save_ready (admin_of [''HR'']) (budget_form ''MEMO 25-002'')
   \<and> Some (strip (ctrl_value (budget_form ''MEMO 25-002''))) \<notin> control_no ` set (memos small_db)
   \<and> (\<exists>i db'. save_memorandum None ''2025-03-02T09:00:00'' (admin_of [''HR''])
                 (budget_form ''MEMO 25-002'') small_db = (Saved i, db'))"
proof -
  have v1: "save_ready (admin_of [''HR'']) (budget_form '' MEMO 25-001 '')"
    by (simp add: save_ready_def admin_of_def in_super_admin_def budget_form_def
          memo_for_units_of_def)
  have v2: "save_ready (admin_of [''HR'']) (budget_form ''MEMO 25-002'')"
    by (simp add: save_ready_def admin_of_def in_super_admin_def budget_form_def
          memo_for_units_of_def)
  have s1: "strip (ctrl_value (budget_form '' MEMO 25-001 '')) = ''MEMO 25-001''" by code_simp
  have s2: "strip (ctrl_value (budget_form ''MEMO 25-002'')) = ''MEMO 25-002''" by code_simp
  have d1: "Some (strip (ctrl_value (budget_form '' MEMO 25-001 '')))
              \<in> control_no ` set (memos small_db)"
    unfolding s1 by (simp add: small_db_def fiscal_memo_def)
  have d2: "Some (strip (ctrl_value (budget_form ''MEMO 25-002'')))
              \<notin> control_no ` set (memos small_db)"
    unfolding s2 by (simp add: small_db_def fiscal_memo_def bare_memo_def)
  from v1 d1
    save_unique_only_at_insert [of "admin_of [''HR'']" "budget_form '' MEMO 25-001 ''" small_db
       None "''2025-03-02T09:00:00''"]
  have a: "save_memorandum None ''2025-03-02T09:00:00'' (admin_of [''HR''])
      (budget_form '' MEMO 25-001 '') small_db
     = (ErrorShown ''Control No. already exists. Please use another.'', small_db)"
    by blast
  from v2 d2
    save_unique_only_at_insert [of "admin_of [''HR'']" "budget_form ''MEMO 25-002''" small_db
       None "''2025-03-02T09:00:00''"]
  have b: "\<exists>i db'. save_memorandum None ''2025-03-02T09:00:00'' (admin_of [''HR''])
                 (budget_form ''MEMO 25-002'') small_db = (Saved i, db')"
    by blast
  from v1 v2 d1 d2 a b show ?thesis by blast
qed

section \<open>Properties of the password reset\<close>



lemma set_password_rows:
  "u' \<in> set (set_password h uid rows) \<Longrightarrow>
   \<exists>u \<in> set rows. u_id u = u_id u' \<and> u_email u = u_email u'"
  unfolding set_password_def
  by (induction rows) (auto split: if_splits)

lemma validate_Some_row:
  assumes "fst (validate_password_reset_token env email tok udb) = Some i"
  shows "\<exists>pr \<in> set (password_reset_tokens udb). \<exists>u \<in> set (users udb).
            tok_user_id pr = i \<and> u_id u = i \<and> email_matches (strip email) u"
proof -
  let ?udb1 = "purge_expired_reset_tokens (env_purge_now env) udb"
  let ?rows = "[pr. pr \<leftarrow> password_reset_tokens ?udb1, u \<leftarrow> users ?udb1,
                         tok_user_id pr = u_id u \<and> email_matches (strip email) u
                         \<and> token pr = strip tok \<and> env_query_now env < expires_at pr]"
  from assms have ne: "\<not> (email = [] \<or> tok = [])"
    by (auto simp: validate_password_reset_token_def)
  with assms obtain pr rest where o: "rev (sort_key tok_created_at ?rows) = pr # rest"
    and i: "tok_user_id pr = i"
    by (auto simp: validate_password_reset_token_def Let_def split: list.splits)
  have "pr \<in> set (rev (sort_key tok_created_at ?rows))" unfolding o by simp
  then have "pr \<in> set ?rows" by simp
  then obtain u where "pr \<in> set (password_reset_tokens ?udb1)" "u \<in> set (users ?udb1)"
      "tok_user_id pr = u_id u" "email_matches (strip email) u"
    by auto
  then have "pr \<in> set (password_reset_tokens udb)" "u \<in> set (users udb)"
      "u_id u = i" "email_matches (strip email) u"
    using i by (auto simp: purge_expired_reset_tokens_def)
  with i show ?thesis by blast
qed

lemma update_success:
  assumes "fst (fst (update_user_password env uid pw udb mdb))"
  shows "fst (snd (update_user_password env uid pw udb mdb))
           = udb\<lparr>users := set_password (env_hashed env) uid (users udb),
                 password_reset_tokens :=
                   filter (\<lambda>t. tok_user_id t \<noteq> uid) (password_reset_tokens udb)\<rparr>"
  using assms
  by (auto simp: update_user_password_def Let_def split: if_splits option.splits)

text \<open>
  C10, amended. After \<^verbatim>\<open>update_user_password(user_id, new_password)\<close> has
  succeeded, no reset token of that user is left, and
  \<^verbatim>\<open>validate_password_reset_token\<close> never returns that user's id until a new
  token is created: it returns \<^verbatim>\<open>None\<close> for an email that only this user's
  account matches up to the case of ASCII letters, whatever the token and the time.
\<close>

theorem update_password_revokes_tokens:
  "fst (fst (update_user_password env uid pw udb mdb)) \<longrightarrow>
     (\<forall>t \<in> set (password_reset_tokens (fst (snd (update_user_password env uid pw udb mdb)))).
         tok_user_id t \<noteq> uid)
   \<and> (\<forall>env' email tok.
         fst (validate_password_reset_token env' email tok
               (fst (snd (update_user_password env uid pw udb mdb)))) \<noteq> Some uid)
   \<and> (\<forall>env' email tok.
         (\<forall>u \<in> set (users udb). email_matches (strip email) u \<longrightarrow> u_id u = uid) \<longrightarrow>
         fst (validate_password_reset_token env' email tok
               (fst (snd (update_user_password env uid pw udb mdb)))) = None)"
proof (intro impI conjI allI)
  assume ok: "fst (fst (update_user_password env uid pw udb mdb))"
  let ?udb' = "fst (snd (update_user_password env uid pw udb mdb))"
  have eq: "?udb' = udb\<lparr>users := set_password (env_hashed env) uid (users udb),
                 password_reset_tokens :=
                   filter (\<lambda>t. tok_user_id t \<noteq> uid) (password_reset_tokens udb)\<rparr>"
    using ok by (rule update_success)
  show no: "\<forall>t \<in> set (password_reset_tokens ?udb'). tok_user_id t \<noteq> uid"
    unfolding eq by simp
  {
    fix env' email tok
    show "fst (validate_password_reset_token env' email tok ?udb') \<noteq> Some uid"
    proof
      assume "fst (validate_password_reset_token env' email tok ?udb') = Some uid"
      then obtain pr where "pr \<in> set (password_reset_tokens ?udb')" "tok_user_id pr = uid"
        using validate_Some_row by blast
      with no show False by blast
    qed
  next
    fix env' email tok
    assume uniq: "\<forall>u \<in> set (users udb). email_matches (strip email) u \<longrightarrow> u_id u = uid"
    show "fst (validate_password_reset_token env' email tok ?udb') = None"
    proof (rule ccontr)
      assume "fst (validate_password_reset_token env' email tok ?udb') \<noteq> None"
      then obtain i where "fst (validate_password_reset_token env' email tok ?udb') = Some i"
        by auto
      then obtain pr u' where pr: "pr \<in> set (password_reset_tokens ?udb')"
         and u': "u' \<in> set (users ?udb')" and i: "tok_user_id pr = i" "u_id u' = i"
         and em: "email_matches (strip email) u'"
        using validate_Some_row by blast
      from u' have "u' \<in> set (set_password (env_hashed env) uid (users udb))"
        unfolding eq by simp
      then obtain u where u: "u \<in> set (users udb)" "u_id u = u_id u'" "u_email u = u_email u'"
        using set_password_rows by blast
      with em have "email_matches (strip email) u" by (simp add: email_matches_def)
      with uniq u have "u_id u' = uid" by auto
      with i have "tok_user_id pr = uid" by simp
      with pr no show False by blast
    qed
  }
qed

text \<open>
  C10 as stated (after the update, validation returns \<^verbatim>\<open>None\<close> for that user's
  email with any token issued before) fails when another account's email differs from
  it in letter case only: the user database accepts both (\<^verbatim>\<open>UNIQUE\<close> compares
  bytes), validation compares with \<^verbatim>\<open>LOWER\<close>, and the other account's token still
  validates for this user's email, returning the other account's id.
\<close>

theorem update_password_revokes_tokens_counterexample:
  "fst (fst (update_user_password noon_env 2 ''pw'' two_users_db small_db))
   \<and> u_id ann_row = 2 \<and> u_email ann_row = Some ''A@x.com''
   \<and> fst (validate_password_reset_token noon_env ''A@x.com'' ''123456''
             (fst (snd (update_user_password noon_env 2 ''pw'' two_users_db small_db))))
       = Some 1"
  by code_simp

theorem update_password_revokes_tokens_witness:
  "fst (fst (update_user_password noon_env 2 ''pw'' one_user_db small_db))
   \<and> users one_user_db = [ann_row] \<and> email_matches (strip ''A@x.com'') ann_row
   \<and> u_id ann_row = 2
   \<and> fst (validate_password_reset_token noon_env ''A@x.com'' ''654321'' one_user_db) = Some 2
   \<and> fst (validate_password_reset_token noon_env ''A@x.com'' ''654321''
             (fst (snd (update_user_password noon_env 2 ''pw'' one_user_db small_db))))
       = None"
proof -
  have ok: "fst (fst (update_user_password noon_env 2 ''pw'' one_user_db small_db))"
    by code_simp
  have uq: "\<forall>u \<in> set (users one_user_db). email_matches (strip ''A@x.com'') u \<longrightarrow> u_id u = 2"
    by (simp add: one_user_db_def ann_row_def)
  have before: "fst (validate_password_reset_token noon_env ''A@x.com'' ''654321'' one_user_db) = Some 2"
    by code_simp
  from update_password_revokes_tokens [of noon_env 2 "''pw''" one_user_db small_db] ok
  have "\<forall>env' email tok.
         (\<forall>u \<in> set (users one_user_db). email_matches (strip email) u \<longrightarrow> u_id u = 2) \<longrightarrow>
         fst (validate_password_reset_token env' email tok
               (fst (snd (update_user_password noon_env 2 ''pw'' one_user_db small_db)))) = None"
    by blast
  with uq have "fst (validate_password_reset_token noon_env ''A@x.com'' ''654321''
             (fst (snd (update_user_password noon_env 2 ''pw'' one_user_db small_db)))) = None"
    by blast
  moreover have "users one_user_db = [ann_row]" by (simp add: one_user_db_def)
  moreover have "email_matches (strip ''A@x.com'') ann_row" by code_simp
  moreover have "u_id ann_row = 2" by (simp add: ann_row_def)
  ultimately show ?thesis using ok before by blast
qed

subsection \<open>The three stages of the reset tab\<close>


lemma tab_email:
  assumes "reset_stage st = ''email''" "reset_tab env ev st udb mdb = (n, st', udb', mdb')"
  shows "(n = Stayed \<and> st' = st \<and> users udb' = users udb)
         \<or> (\<exists>e. ev = SendResetToken e \<and> n = TokenSent (strip e)
                \<and> fst (fst (create_password_reset_token env (strip e) udb))
                \<and> st' = st\<lparr>reset_email := strip e, reset_stage := ''token''\<rparr>
                \<and> users udb' = users udb)"
proof (cases ev)
  case (SendResetToken e)
  obtain ok msg u2 where c: "create_password_reset_token env (strip e) udb = ((ok, msg), u2)"
    by (metis surj_pair)
  have us: "users u2 = users udb"
    using c by (auto simp: create_password_reset_token_def purge_expired_reset_tokens_def
                  Let_def split: if_splits option.splits)
  from assms SendResetToken c us show ?thesis
    by (auto simp: reset_tab_def split: if_splits)
qed (use assms in \<open>auto simp: reset_tab_def\<close>)

lemma tab_token:
  assumes "reset_stage st = ''token''" "reset_tab env ev st udb mdb = (n, st', udb', mdb')"
  shows "(n = Stayed \<and> st' = st \<and> users udb' = users udb)
         \<or> (\<exists>t uid. ev = VerifyToken t \<and> n = TokenVerified uid
                \<and> fst (validate_password_reset_token env (reset_email st) (strip t) udb) = Some uid
                \<and> st' = st\<lparr>reset_user_id := Some uid, reset_stage := ''password''\<rparr>
                \<and> users udb' = users udb)"
proof (cases ev)
  case (VerifyToken t)
  obtain r u2 where v: "validate_password_reset_token env (reset_email st) (strip t) udb = (r, u2)"
    by (metis surj_pair)
  have us: "users u2 = users udb"
    using v by (auto simp: validate_password_reset_token_def purge_expired_reset_tokens_def
                  Let_def split: if_splits)
  from assms VerifyToken v us show ?thesis
    by (cases r) (auto simp: reset_tab_def split: if_splits)
qed (use assms in \<open>auto simp: reset_tab_def\<close>)

lemma tab_password:
  assumes "reset_stage st = ''password''" "reset_tab env ev st udb mdb = (n, st', udb', mdb')"
  shows "(n = Stayed \<and> st' = st \<and> users udb' = users udb)
         \<or> (\<exists>pw uid. ev = ChangePassword pw pw \<and> n = PasswordChanged uid
                \<and> reset_user_id st = Some uid
                \<and> fst (fst (update_user_password env uid pw udb mdb))
                \<and> (udb', mdb') = snd (update_user_password env uid pw udb mdb)
                \<and> st' = reset_session_init)"
proof (cases ev)
  case (ChangePassword pw pw2)
  show ?thesis
  proof (cases "reset_user_id st")
    case None
    with assms ChangePassword show ?thesis
      by (auto simp: reset_tab_def split: if_splits)
  next
    case (Some uid)
    obtain ok msg u2 m2 where u: "update_user_password env uid pw udb mdb = ((ok, msg), u2, m2)"
      by (metis surj_pair)
    have keep: "\<not> ok \<Longrightarrow> users u2 = users udb"
      using u by (auto simp: update_user_password_def Let_def split: if_splits option.splits)
    from assms ChangePassword Some u keep show ?thesis
      by (auto simp: reset_tab_def split: if_splits)
  qed
qed (use assms in \<open>auto simp: reset_tab_def\<close>)

lemma tab_other:
  assumes "reset_stage st \<noteq> ''email''" "reset_stage st \<noteq> ''token''"
          "reset_stage st \<noteq> ''password''"
  shows "reset_tab env ev st udb mdb = (Stayed, st, udb, mdb)"
  using assms by (simp add: reset_tab_def)

lemma trace_order:
  "(reset_stage st = ''email'' \<longrightarrow> wizard_order (reset_trace steps st udb mdb))
   \<and> (reset_stage st = ''token'' \<longrightarrow>
        (\<forall>e. wizard_order (TokenSent e # reset_trace steps st udb mdb)))
   \<and> (reset_stage st = ''password'' \<longrightarrow>
        (\<forall>e u. reset_user_id st = Some u \<longrightarrow>
           wizard_order (TokenSent e # TokenVerified u # reset_trace steps st udb mdb)))"
proof (induction steps arbitrary: st udb mdb)
  case Nil
  show ?case by simp
next
  case (Cons step steps)
  obtain env ev where step: "step = (env, ev)" by (cases step)
  obtain n st' udb' mdb' where t: "reset_tab env ev st udb mdb = (n, st', udb', mdb')"
    by (metis surj_pair)
  have tr: "reset_trace (step # steps) st udb mdb
              = (if n = Stayed then [] else [n]) @ reset_trace steps st' udb' mdb'"
    using step t by simp
  note IH = Cons.IH [of st' udb' mdb']
  show ?case
  proof (intro conjI impI allI)
    assume s: "reset_stage st = ''email''"
    from tab_email [OF s t] show "wizard_order (reset_trace (step # steps) st udb mdb)"
    proof
      assume "n = Stayed \<and> st' = st \<and> users udb' = users udb"
      with s IH tr show ?thesis by simp
    next
      assume "\<exists>e. ev = SendResetToken e \<and> n = TokenSent (strip e)
                \<and> fst (fst (create_password_reset_token env (strip e) udb))
                \<and> st' = st\<lparr>reset_email := strip e, reset_stage := ''token''\<rparr>
                \<and> users udb' = users udb"
      then obtain e where "n = TokenSent (strip e)" "reset_stage st' = ''token''" by auto
      with IH tr show ?thesis by simp
    qed
  next
    fix e
    assume s: "reset_stage st = ''token''"
    from tab_token [OF s t]
    show "wizard_order (TokenSent e # reset_trace (step # steps) st udb mdb)"
    proof
      assume "n = Stayed \<and> st' = st \<and> users udb' = users udb"
      with s IH tr show ?thesis by simp
    next
      assume "\<exists>t uid. ev = VerifyToken t \<and> n = TokenVerified uid
                \<and> fst (validate_password_reset_token env (reset_email st) (strip t) udb) = Some uid
                \<and> st' = st\<lparr>reset_user_id := Some uid, reset_stage := ''password''\<rparr>
                \<and> users udb' = users udb"
      then obtain uid where "n = TokenVerified uid" "reset_stage st' = ''password''"
          "reset_user_id st' = Some uid" by auto
      with IH tr show ?thesis by simp
    qed
  next
    fix e u
    assume s: "reset_stage st = ''password''" and r: "reset_user_id st = Some u"
    from tab_password [OF s t]
    show "wizard_order (TokenSent e # TokenVerified u # reset_trace (step # steps) st udb mdb)"
    proof
      assume "n = Stayed \<and> st' = st \<and> users udb' = users udb"
      with s r IH tr show ?thesis by simp
    next
      assume "\<exists>pw uid. ev = ChangePassword pw pw \<and> n = PasswordChanged uid
                \<and> reset_user_id st = Some uid
                \<and> fst (fst (update_user_password env uid pw udb mdb))
                \<and> (udb', mdb') = snd (update_user_password env uid pw udb mdb)
                \<and> st' = reset_session_init"
      with r have "n = PasswordChanged u" "reset_stage st' = ''email''"
        by (auto simp: reset_session_init_def)
      with IH tr show ?thesis by simp
    qed
  qed
qed

text \<open>
  C6. One run of the Reset Password tab changes the stage only from \<^verbatim>\<open>email\<close> to
  \<^verbatim>\<open>token\<close>, and then \<^verbatim>\<open>create_password_reset_token\<close> succeeded for the
  entered email; or from \<^verbatim>\<open>token\<close> to \<^verbatim>\<open>password\<close>, and then
  \<^verbatim>\<open>validate_password_reset_token\<close> returned a user id for the stored email and
  the entered token, which is stored; or from \<^verbatim>\<open>password\<close> back to \<^verbatim>\<open>email\<close>,
  after \<^verbatim>\<open>update_user_password\<close> succeeded for the stored user id. The table of
  users changes only in the stage \<^verbatim>\<open>password\<close>, by \<^verbatim>\<open>update_user_password\<close>
  for the stored user id. Over any sequence of runs from the first load, the successes
  come in the order: token sent, token verified for a user, password of that user
  changed; no stage is skipped.
\<close>

theorem reset_wizard_linear:
  "(case reset_tab env ev st udb mdb of
      (note, st', udb', mdb') \<Rightarrow>
        (reset_stage st' \<noteq> reset_stage st \<longrightarrow>
             (reset_stage st = ''email'' \<and> reset_stage st' = ''token''
                \<and> (\<exists>e. ev = SendResetToken e \<and> note = TokenSent (strip e)
                       \<and> fst (fst (create_password_reset_token env (strip e) udb))
                       \<and> reset_email st' = strip e))
           \<or> (reset_stage st = ''token'' \<and> reset_stage st' = ''password''
                \<and> (\<exists>t uid. ev = VerifyToken t \<and> note = TokenVerified uid
                       \<and> fst (validate_password_reset_token env (reset_email st) (strip t) udb)
                           = Some uid
                       \<and> reset_user_id st' = Some uid))
           \<or> (reset_stage st = ''password'' \<and> reset_stage st' = ''email''
                \<and> (\<exists>pw uid. ev = ChangePassword pw pw \<and> note = PasswordChanged uid
                       \<and> reset_user_id st = Some uid
                       \<and> fst (fst (update_user_password env uid pw udb mdb)))))
      \<and> (users udb' \<noteq> users udb \<longrightarrow>
             reset_stage st = ''password''
           \<and> (\<exists>pw uid. ev = ChangePassword pw pw \<and> note = PasswordChanged uid
                  \<and> reset_user_id st = Some uid
                  \<and> (udb', mdb') = snd (update_user_password env uid pw udb mdb))))
   \<and> wizard_order (reset_trace steps reset_session_init udb_first mdb_first)"
proof
  obtain n st' udb' mdb' where t: "reset_tab env ev st udb mdb = (n, st', udb', mdb')"
    by (metis surj_pair)
  consider (e) "reset_stage st = ''email''" | (t) "reset_stage st = ''token''"
    | (p) "reset_stage st = ''password''"
    | (o) "reset_stage st \<noteq> ''email''" "reset_stage st \<noteq> ''token''"
          "reset_stage st \<noteq> ''password''"
    by blast
  then have "(reset_stage st' \<noteq> reset_stage st \<longrightarrow>
             (reset_stage st = ''email'' \<and> reset_stage st' = ''token''
                \<and> (\<exists>e. ev = SendResetToken e \<and> n = TokenSent (strip e)
                       \<and> fst (fst (create_password_reset_token env (strip e) udb))
                       \<and> reset_email st' = strip e))
           \<or> (reset_stage st = ''token'' \<and> reset_stage st' = ''password''
                \<and> (\<exists>t uid. ev = VerifyToken t \<and> n = TokenVerified uid
                       \<and> fst (validate_password_reset_token env (reset_email st) (strip t) udb)
                           = Some uid
                       \<and> reset_user_id st' = Some uid))
           \<or> (reset_stage st = ''password'' \<and> reset_stage st' = ''email''
                \<and> (\<exists>pw uid. ev = ChangePassword pw pw \<and> n = PasswordChanged uid
                       \<and> reset_user_id st = Some uid
                       \<and> fst (fst (update_user_password env uid pw udb mdb)))))
      \<and> (users udb' \<noteq> users udb \<longrightarrow>
             reset_stage st = ''password''
           \<and> (\<exists>pw uid. ev = ChangePassword pw pw \<and> n = PasswordChanged uid
                  \<and> reset_user_id st = Some uid
                  \<and> (udb', mdb') = snd (update_user_password env uid pw udb mdb)))"
  proof cases
    case e
    from tab_email [OF e t] e show ?thesis by auto
  next
    case t
    from tab_token [OF t \<open>reset_tab env ev st udb mdb = (n, st', udb', mdb')\<close>] t
    show ?thesis by auto
  next
    case p
    from tab_password [OF p t] p show ?thesis by (auto simp: reset_session_init_def)
  next
    case o
    with t tab_other [OF o, of env ev udb mdb] show ?thesis by simp
  qed
  with t show "case reset_tab env ev st udb mdb of
      (note, st', udb', mdb') \<Rightarrow>
        (reset_stage st' \<noteq> reset_stage st \<longrightarrow>
             (reset_stage st = ''email'' \<and> reset_stage st' = ''token''
                \<and> (\<exists>e. ev = SendResetToken e \<and> note = TokenSent (strip e)
                       \<and> fst (fst (create_password_reset_token env (strip e) udb))
                       \<and> reset_email st' = strip e))
           \<or> (reset_stage st = ''token'' \<and> reset_stage st' = ''password''
                \<and> (\<exists>t uid. ev = VerifyToken t \<and> note = TokenVerified uid
                       \<and> fst (validate_password_reset_token env (reset_email st) (strip t) udb)
                           = Some uid
                       \<and> reset_user_id st' = Some uid))
           \<or> (reset_stage st = ''password'' \<and> reset_stage st' = ''email''
                \<and> (\<exists>pw uid. ev = ChangePassword pw pw \<and> note = PasswordChanged uid
                       \<and> reset_user_id st = Some uid
                       \<and> fst (fst (update_user_password env uid pw udb mdb)))))
      \<and> (users udb' \<noteq> users udb \<longrightarrow>
             reset_stage st = ''password''
           \<and> (\<exists>pw uid. ev = ChangePassword pw pw \<and> note = PasswordChanged uid
                  \<and> reset_user_id st = Some uid
                  \<and> (udb', mdb') = snd (update_user_password env uid pw udb mdb)))"
    by simp
next
  show "wizard_order (reset_trace steps reset_session_init udb_first mdb_first)"
    using trace_order [of reset_session_init steps udb_first mdb_first]
    by (simp add: reset_session_init_def)
qed


theorem reset_wizard_linear_witness:
  "reset_stage (fst (snd (reset_tab noon_env (SendResetToken ''a@x.com'') reset_session_init
                            two_users_db small_db)))
     \<noteq> reset_stage reset_session_init
   \<and> fst (fst (create_password_reset_token noon_env (strip ''a@x.com'') two_users_db))
   \<and> reset_trace
        [(noon_env, SendResetToken ''a@x.com''), (noon_env, VerifyToken ''000000''),
         (noon_env, VerifyToken ''777777''), (noon_env, ChangePassword ''pw'' ''pw'')]
        reset_session_init two_users_db small_db
       = [TokenSent ''a@x.com'', TokenVerified 2, PasswordChanged 2]
   \<and> wizard_order
        (reset_trace
          [(noon_env, SendResetToken ''a@x.com''), (noon_env, VerifyToken ''000000''),
           (noon_env, VerifyToken ''777777''), (noon_env, ChangePassword ''pw'' ''pw'')]
          reset_session_init two_users_db small_db)"
proof -
  let ?steps = "[(noon_env, SendResetToken ''a@x.com''), (noon_env, VerifyToken ''000000''),
         (noon_env, VerifyToken ''777777''), (noon_env, ChangePassword ''pw'' ''pw'')]"
  have ch: "reset_stage (fst (snd (reset_tab noon_env (SendResetToken ''a@x.com'')
                                    reset_session_init two_users_db small_db)))
              \<noteq> reset_stage reset_session_init"
    by code_simp
  have tr: "reset_trace ?steps reset_session_init two_users_db small_db
              = [TokenSent ''a@x.com'', TokenVerified 2, PasswordChanged 2]"
    by code_simp
  note th = reset_wizard_linear [where env = noon_env and ev = "SendResetToken ''a@x.com''"
               and st = reset_session_init and udb = two_users_db and mdb = small_db
               and steps = ?steps and udb_first = two_users_db and mdb_first = small_db]
  from th have wo: "wizard_order (reset_trace ?steps reset_session_init two_users_db small_db)"
    by blast
  from th ch have cr: "fst (fst (create_password_reset_token noon_env (strip ''a@x.com'')
                                   two_users_db))"
    by (auto split: prod.splits)
  from ch cr tr wo show ?thesis by blast
qed

end
